theory Spec2Isabelle
  imports Main
begin

section \<open>The host's declarations, as the check reads them\<close>

text \<open>
  The check \<open>performance-vector-pessimization\<close> (VectorPessimizationCheck.cpp) reads the
  compiler's syntax tree through a handful of queries. Each queried declaration is a
  record holding the answers of those queries; a record type points to its declaration
  through an identifier, looked up in a table of declarations, as the pointer
  \<open>Type->getAsCXXRecordDecl()\<close> does. The table may hold any graph, also a cyclic one.
\<close>

type_synonym SourceLocation = "nat \<times> nat"

type_synonym DeclId = nat

text \<open>
  A type node: \<open>isBuiltinType\<close>, \<open>isEnumeralType\<close> and \<open>getAsCXXRecordDecl\<close> tell the
  first three classes apart; every other type (pointer, reference, array, ...) is
  \<open>OtherType\<close>. The string is the type's spelling, which only the host's printer reads.
\<close>

datatype Type =
    BuiltinType string
  | EnumType string
  | RecordType DeclId string
  | OtherType string

datatype Qualifier = Const | Restrict | Volatile

record QualType =
  qt_type :: Type
  qt_localFastQualifiers :: "Qualifier set"

text \<open>
  Modelled from the spec: \<open>utils::ExceptionSpecAnalyzer::State\<close> is declared outside
  the sources at hand; the spec gives the tri-state classification
  NotThrowing, Throwing, Unknown. The check itself only names \<open>State::Throwing\<close>.
\<close>

datatype State = NotThrowing | Throwing | Unknown

record CXXConstructorDecl =
  ctor_getLocation :: SourceLocation
  ctor_isMoveConstructor :: bool
  ctor_isUserProvided :: bool

record FieldDecl =
  field_getLocation :: SourceLocation
  field_isCXXClassMember :: bool
  field_getType :: QualType

record CXXBaseSpecifier =
  base_isVirtual :: bool
  base_getType :: QualType
  base_getBeginLoc :: SourceLocation

record CXXRecordDecl =
  rec_getLocation :: SourceLocation
  rec_getTypeForDecl :: Type
  rec_hasDefinition :: bool
  rec_isTriviallyCopyable :: bool
  rec_ctors :: "CXXConstructorDecl list"
  rec_fields :: "FieldDecl list"
  rec_bases :: "CXXBaseSpecifier list"

record TypeLoc =
  tl_getBeginLoc :: SourceLocation
  tl_getType :: QualType

type_synonym DeclTable = "DeclId \<Rightarrow> CXXRecordDecl"

type_synonym ExceptionSpecAnalyzer = "CXXConstructorDecl \<Rightarrow> State"

type_synonym TypePrinter = "QualType \<Rightarrow> string"

text \<open>
  A diagnostic as the sink receives it: location, message template, level and the
  arguments streamed into the template. \<open>diag\<close> without a level reports a warning, as the
  test file's expected output shows.
\<close>

datatype Level = Warning | Note

record Diagnostic =
  diag_loc :: SourceLocation
  diag_message :: string
  diag_level :: Level
  diag_args :: "string list"

definition diag :: "SourceLocation \<Rightarrow> string \<Rightarrow> Level \<Rightarrow> string list \<Rightarrow> Diagnostic" where
  "diag Loc Message Lvl Args =
     \<lparr>diag_loc = Loc, diag_message = Message, diag_level = Lvl, diag_args = Args\<rparr>"

definition isBuiltinType :: "QualType \<Rightarrow> bool" where
  "isBuiltinType T = (case qt_type T of BuiltinType _ \<Rightarrow> True | _ \<Rightarrow> False)"

definition isEnumeralType :: "QualType \<Rightarrow> bool" where
  "isEnumeralType T = (case qt_type T of EnumType _ \<Rightarrow> True | _ \<Rightarrow> False)"

definition getAsCXXRecordDecl :: "DeclTable \<Rightarrow> QualType \<Rightarrow> CXXRecordDecl option" where
  "getAsCXXRecordDecl Decls T =
     (case qt_type T of RecordType D _ \<Rightarrow> Some (Decls D) | _ \<Rightarrow> None)"

definition removeLocalFastQualifiers :: "QualType \<Rightarrow> QualType" where
  "removeLocalFastQualifiers T = T\<lparr>qt_localFastQualifiers := {}\<rparr>"

section \<open>The check\<close>

definition MaxRecursionDepth :: nat where
  "MaxRecursionDepth = 3"

text \<open>The message templates handed to \<open>diag\<close>.\<close>

definition DefinedHereMessage :: string where
  "DefinedHereMessage = '''%0' defined here''"

definition ThrowingCtorMessage :: string where
  "ThrowingCtorMessage = ''throwing move constructor declared here''"

definition BecauseMessage :: string where
  "BecauseMessage = ''because the move constructor of '%0' may throw''"

definition WarningMessage :: string where
  "WarningMessage =
     '''%0' will copy elements on resize instead of moving because the move constructor of '%1' may throw''"

text \<open>
  \<open>hasNothrowMoveConstructor\<close>: the loop over \<open>Record->ctors()\<close> returns at the first
  move constructor, with the answer \<open>analyze(Constructor) != State::Throwing\<close>.
\<close>

fun hasNothrowMoveConstructor_loop ::
  "CXXConstructorDecl list \<Rightarrow> ExceptionSpecAnalyzer \<Rightarrow> bool" where
  "hasNothrowMoveConstructor_loop [] SpecAnalyzer = False"
| "hasNothrowMoveConstructor_loop (Constructor # Rest) SpecAnalyzer =
     (if ctor_isMoveConstructor Constructor
      then SpecAnalyzer Constructor \<noteq> Throwing
      else hasNothrowMoveConstructor_loop Rest SpecAnalyzer)"

definition hasNothrowMoveConstructor ::
  "DeclTable \<Rightarrow> QualType \<Rightarrow> ExceptionSpecAnalyzer \<Rightarrow> bool" where
  "hasNothrowMoveConstructor Decls T SpecAnalyzer =
     (case getAsCXXRecordDecl Decls T of
        None \<Rightarrow> False
      | Some Record \<Rightarrow>
          if \<not> rec_hasDefinition Record then False
          else hasNothrowMoveConstructor_loop (rec_ctors Record) SpecAnalyzer)"

text \<open>
  \<open>getThrowingUserDefinedMoveConstructor\<close>: the loop returns at the first constructor
  that is a move constructor and user-provided: that constructor when it is classified
  \<open>Throwing\<close>, the null pointer otherwise.
\<close>

fun getThrowingUserDefinedMoveConstructor_loop ::
  "CXXConstructorDecl list \<Rightarrow> ExceptionSpecAnalyzer \<Rightarrow> CXXConstructorDecl option" where
  "getThrowingUserDefinedMoveConstructor_loop [] SpecAnalyzer = None"
| "getThrowingUserDefinedMoveConstructor_loop (Constructor # Rest) SpecAnalyzer =
     (if ctor_isMoveConstructor Constructor \<and> ctor_isUserProvided Constructor
      then (if SpecAnalyzer Constructor = Throwing then Some Constructor else None)
      else getThrowingUserDefinedMoveConstructor_loop Rest SpecAnalyzer)"

definition getThrowingUserDefinedMoveConstructor ::
  "CXXRecordDecl \<Rightarrow> ExceptionSpecAnalyzer \<Rightarrow> CXXConstructorDecl option" where
  "getThrowingUserDefinedMoveConstructor Record SpecAnalyzer =
     getThrowingUserDefinedMoveConstructor_loop (rec_ctors Record) SpecAnalyzer"

definition isTriviallyCopyable :: "DeclTable \<Rightarrow> QualType \<Rightarrow> bool" where
  "isTriviallyCopyable Decls T =
     (if isBuiltinType T \<or> isEnumeralType T then True
      else case getAsCXXRecordDecl Decls T of
             None \<Rightarrow> False
           | Some Record \<Rightarrow>
               if \<not> rec_hasDefinition Record then False
               else rec_isTriviallyCopyable Record)"

definition willDegradeToCopy ::
  "DeclTable \<Rightarrow> QualType \<Rightarrow> ExceptionSpecAnalyzer \<Rightarrow> bool" where
  "willDegradeToCopy Decls T SpecAnalyzer =
     (\<not> isTriviallyCopyable Decls T \<and> \<not> hasNothrowMoveConstructor Decls T SpecAnalyzer)"

text \<open>
  \<open>getFirstThrowingDataMember\<close> and \<open>getFirstThrowingBaseClass\<close>: each loop returns the
  first element that passes its test. The range \<open>Record->fields()\<close> holds declarations,
  never a null pointer, so the test \<open>Field &&\<close> of the source is always true.
\<close>

fun getFirstThrowingDataMember_loop ::
  "DeclTable \<Rightarrow> FieldDecl list \<Rightarrow> ExceptionSpecAnalyzer \<Rightarrow> FieldDecl option" where
  "getFirstThrowingDataMember_loop Decls [] SpecAnalyzer = None"
| "getFirstThrowingDataMember_loop Decls (FieldD # Rest) SpecAnalyzer =
     (if field_isCXXClassMember FieldD \<and>
         willDegradeToCopy Decls (field_getType FieldD) SpecAnalyzer
      then Some FieldD
      else getFirstThrowingDataMember_loop Decls Rest SpecAnalyzer)"

definition getFirstThrowingDataMember ::
  "DeclTable \<Rightarrow> CXXRecordDecl \<Rightarrow> ExceptionSpecAnalyzer \<Rightarrow> FieldDecl option" where
  "getFirstThrowingDataMember Decls Record SpecAnalyzer =
     getFirstThrowingDataMember_loop Decls (rec_fields Record) SpecAnalyzer"

fun getFirstThrowingBaseClass_loop ::
  "DeclTable \<Rightarrow> CXXBaseSpecifier list \<Rightarrow> ExceptionSpecAnalyzer \<Rightarrow> CXXBaseSpecifier option" where
  "getFirstThrowingBaseClass_loop Decls [] SpecAnalyzer = None"
| "getFirstThrowingBaseClass_loop Decls (BaseClass # Rest) SpecAnalyzer =
     (if \<not> base_isVirtual BaseClass \<and>
         willDegradeToCopy Decls (base_getType BaseClass) SpecAnalyzer
      then Some BaseClass
      else getFirstThrowingBaseClass_loop Decls Rest SpecAnalyzer)"

definition getFirstThrowingBaseClass ::
  "DeclTable \<Rightarrow> CXXRecordDecl \<Rightarrow> ExceptionSpecAnalyzer \<Rightarrow> CXXBaseSpecifier option" where
  "getFirstThrowingBaseClass Decls Record SpecAnalyzer =
     getFirstThrowingBaseClass_loop Decls (rec_bases Record) SpecAnalyzer"

text \<open>
  \<open>recursivelyCheckMembers\<close> returns the notes it hands to \<open>diag\<close>, in the order of the
  calls. The depth is a \<open>size_t\<close>; it is incremented only below \<open>MaxRecursionDepth\<close>, so
  it never wraps and a natural number models it. The recursion follows the declaration
  table, whatever its shape: only the depth counter decreases the measure.
\<close>

function recursivelyCheckMembers ::
  "DeclTable \<Rightarrow> ExceptionSpecAnalyzer \<Rightarrow> TypePrinter \<Rightarrow> QualType \<Rightarrow> nat \<Rightarrow> Diagnostic list" where
  "recursivelyCheckMembers Decls SpecAnalyzer getAsString T RecursionDepth =
     (case getAsCXXRecordDecl Decls T of
        None \<Rightarrow> []
      | Some Record \<Rightarrow>
          if \<not> rec_hasDefinition Record then []
          else
            diag (rec_getLocation Record) DefinedHereMessage Note
              [getAsString \<lparr>qt_type = rec_getTypeForDecl Record, qt_localFastQualifiers = {}\<rparr>] #
            (case getThrowingUserDefinedMoveConstructor Record SpecAnalyzer of
               Some MoveCTOR \<Rightarrow>
                 [diag (ctor_getLocation MoveCTOR) ThrowingCtorMessage Note []]
             | None \<Rightarrow>
                 (case getFirstThrowingDataMember Decls Record SpecAnalyzer of
                    Some ThrowingDataMember \<Rightarrow>
                      diag (field_getLocation ThrowingDataMember) BecauseMessage Note
                        [getAsString (removeLocalFastQualifiers (field_getType ThrowingDataMember))] #
                      (if RecursionDepth \<ge> MaxRecursionDepth then []
                       else recursivelyCheckMembers Decls SpecAnalyzer getAsString
                              (field_getType ThrowingDataMember) (RecursionDepth + 1))
                  | None \<Rightarrow>
                      (case getFirstThrowingBaseClass Decls Record SpecAnalyzer of
                         Some ThrowingBaseClass \<Rightarrow>
                           diag (base_getBeginLoc ThrowingBaseClass) BecauseMessage Note
                             [getAsString (base_getType ThrowingBaseClass)] #
                           (if RecursionDepth \<ge> MaxRecursionDepth then []
                            else recursivelyCheckMembers Decls SpecAnalyzer getAsString
                                   (base_getType ThrowingBaseClass) (RecursionDepth + 1))
                       | None \<Rightarrow> []))))"
  by pat_completeness auto
termination
  by (relation "measure (\<lambda>(Decls, SpecAnalyzer, getAsString, T, RecursionDepth).
                           MaxRecursionDepth - RecursionDepth)") auto

text \<open>
  \<open>check\<close>: the two bound nodes may be absent (null pointers); the primary diagnostic is
  a warning, the default level of \<open>diag\<close>.
\<close>

definition check ::
  "DeclTable \<Rightarrow> ExceptionSpecAnalyzer \<Rightarrow> TypePrinter \<Rightarrow> TypeLoc option \<Rightarrow> QualType option
     \<Rightarrow> Diagnostic list" where
  "check Decls SpecAnalyzer getAsString VectorType ValueType =
     (case VectorType of
        None \<Rightarrow> []
      | Some VT \<Rightarrow>
          (case ValueType of
             None \<Rightarrow> []
           | Some ValT \<Rightarrow>
               if \<not> willDegradeToCopy Decls ValT SpecAnalyzer then []
               else
                 diag (tl_getBeginLoc VT) WarningMessage Warning
                   [getAsString (tl_getType VT), getAsString ValT] #
                 recursivelyCheckMembers Decls SpecAnalyzer getAsString ValT 1))"

section \<open>Shapes of a causal chain\<close>

definition isLocatorStep :: "Diagnostic \<Rightarrow> bool" where
  "isLocatorStep N = (diag_level N = Note \<and> diag_message N = DefinedHereMessage)"

definition isBecauseStep :: "Diagnostic \<Rightarrow> bool" where
  "isBecauseStep N = (diag_level N = Note \<and> diag_message N = BecauseMessage)"

definition isThrowingCtorStep :: "Diagnostic \<Rightarrow> bool" where
  "isThrowingCtorStep N = (diag_level N = Note \<and> diag_message N = ThrowingCtorMessage)"

definition isCauseStep :: "Diagnostic \<Rightarrow> bool" where
  "isCauseStep N = (isBecauseStep N \<or> isThrowingCtorStep N)"

text \<open>A chain alternates: a locator step, then a cause step, then a locator step, ...\<close>

fun alternates :: "Diagnostic list \<Rightarrow> bool" where
  "alternates [] = True"
| "alternates [L] = isLocatorStep L"
| "alternates (L # C # Rest) = (isLocatorStep L \<and> isCauseStep C \<and> alternates Rest)"

section \<open>The test file vector-pessimization.cpp\<close>

text \<open>
  The declarations of the test file, with the line and column of each, and the types as
  they are spelled there. Implicitly declared constructors are not listed. Records:
  0 \<open>MoveConstructorThrows\<close>, 1 \<open>DerivedFromMoveConstructorThrows\<close>,
  2 \<open>ContainsThrowingMoveConstructor\<close>, 3 its \<open>Inner\<close>,
  4 \<open>ContainsDeeplyNestedThrowingMoveConstructor\<close>, 5 \<open>NothrowMoveConstructibleExample\<close>,
  6 \<open>TriviallyCopyableExample\<close>.
\<close>

definition typeSpelling :: "Type \<Rightarrow> string" where
  "typeSpelling Ty =
     (case Ty of BuiltinType S \<Rightarrow> S | EnumType S \<Rightarrow> S | RecordType D S \<Rightarrow> S | OtherType S \<Rightarrow> S)"

definition test_getAsString :: TypePrinter where
  "test_getAsString T =
     (if Const \<in> qt_localFastQualifiers T then ''const '' else '''') @ typeSpelling (qt_type T)"

definition plainType :: "Type \<Rightarrow> QualType" where
  "plainType Ty = \<lparr>qt_type = Ty, qt_localFastQualifiers = {}\<rparr>"

definition ForwardDeclared :: "SourceLocation \<Rightarrow> Type \<Rightarrow> CXXRecordDecl" where
  "ForwardDeclared Loc Ty =
     \<lparr>rec_getLocation = Loc, rec_getTypeForDecl = Ty, rec_hasDefinition = False,
      rec_isTriviallyCopyable = False, rec_ctors = [], rec_fields = [], rec_bases = []\<rparr>"

definition MoveConstructorThrows_copy :: CXXConstructorDecl where
  "MoveConstructorThrows_copy =
     \<lparr>ctor_getLocation = (10, 5), ctor_isMoveConstructor = False, ctor_isUserProvided = True\<rparr>"

definition MoveConstructorThrows_move :: CXXConstructorDecl where
  "MoveConstructorThrows_move =
     \<lparr>ctor_getLocation = (11, 5), ctor_isMoveConstructor = True, ctor_isUserProvided = True\<rparr>"

definition MoveConstructorThrows :: CXXRecordDecl where
  "MoveConstructorThrows =
     \<lparr>rec_getLocation = (9, 8),
      rec_getTypeForDecl = RecordType 0 ''struct MoveConstructorThrows'',
      rec_hasDefinition = True, rec_isTriviallyCopyable = False,
      rec_ctors = [MoveConstructorThrows_copy, MoveConstructorThrows_move],
      rec_fields = [], rec_bases = []\<rparr>"

definition DerivedFromMoveConstructorThrows :: CXXRecordDecl where
  "DerivedFromMoveConstructorThrows =
     \<lparr>rec_getLocation = (19, 8),
      rec_getTypeForDecl = RecordType 1 ''struct DerivedFromMoveConstructorThrows'',
      rec_hasDefinition = True, rec_isTriviallyCopyable = False,
      rec_ctors = [], rec_fields = [],
      rec_bases = [\<lparr>base_isVirtual = False,
                    base_getType = plainType (RecordType 0 ''MoveConstructorThrows''),
                    base_getBeginLoc = (19, 43)\<rparr>]\<rparr>"

definition Inner_Bar :: FieldDecl where
  "Inner_Bar =
     \<lparr>field_getLocation = (30, 37), field_isCXXClassMember = True,
      field_getType = \<lparr>qt_type = RecordType 0 ''MoveConstructorThrows'',
                       qt_localFastQualifiers = {Const}\<rparr>\<rparr>"

definition Inner :: CXXRecordDecl where
  "Inner =
     \<lparr>rec_getLocation = (29, 12),
      rec_getTypeForDecl = RecordType 3 ''struct ContainsThrowingMoveConstructor::Inner'',
      rec_hasDefinition = True, rec_isTriviallyCopyable = False,
      rec_ctors = [], rec_fields = [Inner_Bar], rec_bases = []\<rparr>"

definition ThisMemberIsFine :: FieldDecl where
  "ThisMemberIsFine =
     \<lparr>field_getLocation = (32, 17), field_isCXXClassMember = True,
      field_getType = plainType (EnumType ''ExampleEnum'')\<rparr>"

definition Foo :: FieldDecl where
  "Foo =
     \<lparr>field_getLocation = (33, 11), field_isCXXClassMember = True,
      field_getType = plainType (RecordType 3 ''Inner'')\<rparr>"

definition ContainsThrowingMoveConstructor :: CXXRecordDecl where
  "ContainsThrowingMoveConstructor =
     \<lparr>rec_getLocation = (27, 7),
      rec_getTypeForDecl = RecordType 2 ''class ContainsThrowingMoveConstructor'',
      rec_hasDefinition = True, rec_isTriviallyCopyable = False,
      rec_ctors = [], rec_fields = [ThisMemberIsFine, Foo], rec_bases = []\<rparr>"

definition Baz :: FieldDecl where
  "Baz =
     \<lparr>field_getLocation = (46, 37), field_isCXXClassMember = True,
      field_getType = plainType (RecordType 2 ''ContainsThrowingMoveConstructor'')\<rparr>"

definition ContainsDeeplyNestedThrowingMoveConstructor :: CXXRecordDecl where
  "ContainsDeeplyNestedThrowingMoveConstructor =
     \<lparr>rec_getLocation = (45, 8),
      rec_getTypeForDecl = RecordType 4 ''struct ContainsDeeplyNestedThrowingMoveConstructor'',
      rec_hasDefinition = True, rec_isTriviallyCopyable = False,
      rec_ctors = [], rec_fields = [Baz], rec_bases = []\<rparr>"

definition NothrowMoveConstructibleExample_move :: CXXConstructorDecl where
  "NothrowMoveConstructibleExample_move =
     \<lparr>ctor_getLocation = (61, 5), ctor_isMoveConstructor = True, ctor_isUserProvided = True\<rparr>"

definition NothrowMoveConstructibleExample :: CXXRecordDecl where
  "NothrowMoveConstructibleExample =
     \<lparr>rec_getLocation = (59, 8),
      rec_getTypeForDecl = RecordType 5 ''struct NothrowMoveConstructibleExample'',
      rec_hasDefinition = True, rec_isTriviallyCopyable = False,
      rec_ctors = [\<lparr>ctor_getLocation = (60, 5), ctor_isMoveConstructor = False,
                    ctor_isUserProvided = True\<rparr>,
                   NothrowMoveConstructibleExample_move],
      rec_fields = [], rec_bases = []\<rparr>"

definition TriviallyCopyableExample :: CXXRecordDecl where
  "TriviallyCopyableExample =
     \<lparr>rec_getLocation = (66, 8),
      rec_getTypeForDecl = RecordType 6 ''struct TriviallyCopyableExample'',
      rec_hasDefinition = True, rec_isTriviallyCopyable = True,
      rec_ctors = [],
      rec_fields = [\<lparr>field_getLocation = (67, 9), field_isCXXClassMember = True,
                     field_getType = plainType (BuiltinType ''int'')\<rparr>],
      rec_bases = []\<rparr>"

definition test_Decls :: DeclTable where
  "test_Decls D =
     (if D = 0 then MoveConstructorThrows
      else if D = 1 then DerivedFromMoveConstructorThrows
      else if D = 2 then ContainsThrowingMoveConstructor
      else if D = 3 then Inner
      else if D = 4 then ContainsDeeplyNestedThrowingMoveConstructor
      else if D = 5 then NothrowMoveConstructibleExample
      else if D = 6 then TriviallyCopyableExample
      else ForwardDeclared (0, 0) (RecordType D ''''))"

text \<open>
  The classification of the test file's constructors: \<open>noexcept(false)\<close> at 11:5 is
  \<open>Throwing\<close>, \<open>noexcept\<close> at 61:5 is \<open>NotThrowing\<close>.
\<close>

definition test_SpecAnalyzer :: ExceptionSpecAnalyzer where
  "test_SpecAnalyzer Constructor =
     (if ctor_getLocation Constructor = (11, 5) then Throwing
      else if ctor_getLocation Constructor = (61, 5) then NotThrowing
      else Unknown)"

definition vectorAt :: "SourceLocation \<Rightarrow> string \<Rightarrow> TypeLoc" where
  "vectorAt Loc Spelling =
     \<lparr>tl_getBeginLoc = Loc, tl_getType = plainType (RecordType 100 Spelling)\<rparr>"

section \<open>Further declarations, beside the test file's\<close>

text \<open>
  Four more records, as a translation unit could declare them after the test file's:
  7 \<open>struct Incomplete;\<close> (declared, never defined),
  8 \<open>struct VirtuallyDerived : virtual MoveConstructorThrows {};\<close>,
  9 \<open>struct TwoMoveConstructors\<close> with \<open>TwoMoveConstructors(const TwoMoveConstructors&&) noexcept\<close>
  declared before \<open>TwoMoveConstructors(TwoMoveConstructors&&) noexcept(false)\<close> (both are
  move constructors, both user-provided),
  10 \<open>struct UnknownMove\<close> whose only move constructor the analyzer cannot classify,
  and 11, a record whose member has the record's own type: no well-formed program
  declares it, but the table can hold it.
\<close>

definition Incomplete :: CXXRecordDecl where
  "Incomplete = ForwardDeclared (72, 8) (RecordType 7 ''struct Incomplete'')"

definition VirtualBase :: CXXBaseSpecifier where
  "VirtualBase =
     \<lparr>base_isVirtual = True,
      base_getType = plainType (RecordType 0 ''MoveConstructorThrows''),
      base_getBeginLoc = (74, 27)\<rparr>"

definition VirtuallyDerived :: CXXRecordDecl where
  "VirtuallyDerived =
     \<lparr>rec_getLocation = (74, 8),
      rec_getTypeForDecl = RecordType 8 ''struct VirtuallyDerived'',
      rec_hasDefinition = True, rec_isTriviallyCopyable = False,
      rec_ctors = [], rec_fields = [], rec_bases = [VirtualBase]\<rparr>"

definition TwoMoveConstructors_first :: CXXConstructorDecl where
  "TwoMoveConstructors_first =
     \<lparr>ctor_getLocation = (77, 5), ctor_isMoveConstructor = True, ctor_isUserProvided = True\<rparr>"

definition TwoMoveConstructors_second :: CXXConstructorDecl where
  "TwoMoveConstructors_second =
     \<lparr>ctor_getLocation = (78, 5), ctor_isMoveConstructor = True, ctor_isUserProvided = True\<rparr>"

definition TwoMoveConstructors :: CXXRecordDecl where
  "TwoMoveConstructors =
     \<lparr>rec_getLocation = (76, 8),
      rec_getTypeForDecl = RecordType 9 ''struct TwoMoveConstructors'',
      rec_hasDefinition = True, rec_isTriviallyCopyable = False,
      rec_ctors = [TwoMoveConstructors_first, TwoMoveConstructors_second],
      rec_fields = [], rec_bases = []\<rparr>"

definition UnknownMove_move :: CXXConstructorDecl where
  "UnknownMove_move =
     \<lparr>ctor_getLocation = (82, 5), ctor_isMoveConstructor = True, ctor_isUserProvided = True\<rparr>"

definition UnknownMove :: CXXRecordDecl where
  "UnknownMove =
     \<lparr>rec_getLocation = (81, 8),
      rec_getTypeForDecl = RecordType 10 ''struct UnknownMove'',
      rec_hasDefinition = True, rec_isTriviallyCopyable = False,
      rec_ctors = [UnknownMove_move], rec_fields = [], rec_bases = []\<rparr>"

definition SelfContaining_Self :: FieldDecl where
  "SelfContaining_Self =
     \<lparr>field_getLocation = (86, 20), field_isCXXClassMember = True,
      field_getType = plainType (RecordType 11 ''SelfContaining'')\<rparr>"

definition SelfContaining :: CXXRecordDecl where
  "SelfContaining =
     \<lparr>rec_getLocation = (85, 8),
      rec_getTypeForDecl = RecordType 11 ''struct SelfContaining'',
      rec_hasDefinition = True, rec_isTriviallyCopyable = False,
      rec_ctors = [], rec_fields = [SelfContaining_Self], rec_bases = []\<rparr>"

definition more_Decls :: DeclTable where
  "more_Decls D =
     (if D = 7 then Incomplete
      else if D = 8 then VirtuallyDerived
      else if D = 9 then TwoMoveConstructors
      else if D = 10 then UnknownMove
      else if D = 11 then SelfContaining
      else test_Decls D)"

definition more_SpecAnalyzer :: ExceptionSpecAnalyzer where
  "more_SpecAnalyzer Constructor =
     (if ctor_getLocation Constructor = (77, 5) then NotThrowing
      else if ctor_getLocation Constructor = (78, 5) then Throwing
      else test_SpecAnalyzer Constructor)"

text \<open>The notes of one level of the chain, as \<open>recursivelyCheckMembers\<close> builds them.\<close>

definition definedHere :: "TypePrinter \<Rightarrow> CXXRecordDecl \<Rightarrow> Diagnostic" where
  "definedHere getAsString Record =
     diag (rec_getLocation Record) DefinedHereMessage Note
       [getAsString \<lparr>qt_type = rec_getTypeForDecl Record, qt_localFastQualifiers = {}\<rparr>]"

definition throwingCtorHere :: "CXXConstructorDecl \<Rightarrow> Diagnostic" where
  "throwingCtorHere MoveCTOR = diag (ctor_getLocation MoveCTOR) ThrowingCtorMessage Note []"

definition becauseMember :: "TypePrinter \<Rightarrow> FieldDecl \<Rightarrow> Diagnostic" where
  "becauseMember getAsString ThrowingDataMember =
     diag (field_getLocation ThrowingDataMember) BecauseMessage Note
       [getAsString (removeLocalFastQualifiers (field_getType ThrowingDataMember))]"

definition becauseBase :: "TypePrinter \<Rightarrow> CXXBaseSpecifier \<Rightarrow> Diagnostic" where
  "becauseBase getAsString ThrowingBaseClass =
     diag (base_getBeginLoc ThrowingBaseClass) BecauseMessage Note
       [getAsString (base_getType ThrowingBaseClass)]"

definition primaryWarning :: "TypePrinter \<Rightarrow> TypeLoc \<Rightarrow> QualType \<Rightarrow> Diagnostic" where
  "primaryWarning getAsString VT ValT =
     diag (tl_getBeginLoc VT) WarningMessage Warning [getAsString (tl_getType VT), getAsString ValT]"

section \<open>Unfolding the queries and the chain builder\<close>

declare recursivelyCheckMembers.simps [simp del]

lemma messages_distinct:
  "DefinedHereMessage \<noteq> BecauseMessage" "DefinedHereMessage \<noteq> ThrowingCtorMessage"
  "BecauseMessage \<noteq> ThrowingCtorMessage"
  by (simp_all add: DefinedHereMessage_def BecauseMessage_def ThrowingCtorMessage_def)

lemma record_type_class:
  "getAsCXXRecordDecl Decls T = Some Record \<Longrightarrow> \<not> isBuiltinType T \<and> \<not> isEnumeralType T"
  by (auto simp: getAsCXXRecordDecl_def isBuiltinType_def isEnumeralType_def split: Type.splits)

lemma hasNothrowMoveConstructor_loop_find:
  "hasNothrowMoveConstructor_loop Cs SA =
     (case find ctor_isMoveConstructor Cs of None \<Rightarrow> False | Some C \<Rightarrow> SA C \<noteq> Throwing)"
  by (induction Cs) auto

lemma getThrowingUserDefinedMoveConstructor_loop_find:
  "getThrowingUserDefinedMoveConstructor_loop Cs SA =
     (case find (\<lambda>C. ctor_isMoveConstructor C \<and> ctor_isUserProvided C) Cs of
        None \<Rightarrow> None
      | Some C \<Rightarrow> if SA C = Throwing then Some C else None)"
  by (induction Cs) auto

lemma getFirstThrowingDataMember_loop_find:
  "getFirstThrowingDataMember_loop Decls Fs SA =
     find (\<lambda>F. field_isCXXClassMember F \<and> willDegradeToCopy Decls (field_getType F) SA) Fs"
  by (induction Fs) auto

lemma getFirstThrowingBaseClass_loop_find:
  "getFirstThrowingBaseClass_loop Decls Bs SA =
     find (\<lambda>B. \<not> base_isVirtual B \<and> willDegradeToCopy Decls (base_getType B) SA) Bs"
  by (induction Bs) auto

lemma recursivelyCheckMembers_no_record:
  "getAsCXXRecordDecl Decls T = None \<Longrightarrow> recursivelyCheckMembers Decls SA pr T d = []"
  by (simp add: recursivelyCheckMembers.simps)

lemma recursivelyCheckMembers_no_definition:
  "getAsCXXRecordDecl Decls T = Some Record \<Longrightarrow> \<not> rec_hasDefinition Record \<Longrightarrow>
   recursivelyCheckMembers Decls SA pr T d = []"
  by (simp add: recursivelyCheckMembers.simps)

lemma recursivelyCheckMembers_defined:
  "getAsCXXRecordDecl Decls T = Some Record \<Longrightarrow> rec_hasDefinition Record \<Longrightarrow>
   recursivelyCheckMembers Decls SA pr T d =
     definedHere pr Record #
     (case getThrowingUserDefinedMoveConstructor Record SA of
        Some MoveCTOR \<Rightarrow> [throwingCtorHere MoveCTOR]
      | None \<Rightarrow>
          (case getFirstThrowingDataMember Decls Record SA of
             Some F \<Rightarrow>
               becauseMember pr F #
               (if d \<ge> MaxRecursionDepth then []
                else recursivelyCheckMembers Decls SA pr (field_getType F) (d + 1))
           | None \<Rightarrow>
               (case getFirstThrowingBaseClass Decls Record SA of
                  Some B \<Rightarrow>
                    becauseBase pr B #
                    (if d \<ge> MaxRecursionDepth then []
                     else recursivelyCheckMembers Decls SA pr (base_getType B) (d + 1))
                | None \<Rightarrow> [])))"
  by (subst recursivelyCheckMembers.simps)
     (simp add: definedHere_def throwingCtorHere_def becauseMember_def becauseBase_def
           split: option.splits)


lemmas query_defs =
  willDegradeToCopy_def isTriviallyCopyable_def hasNothrowMoveConstructor_def
  getAsCXXRecordDecl_def isBuiltinType_def isEnumeralType_def
  getThrowingUserDefinedMoveConstructor_def getFirstThrowingDataMember_def
  getFirstThrowingBaseClass_def removeLocalFastQualifiers_def MaxRecursionDepth_def

lemmas test_defs =
  test_Decls_def test_SpecAnalyzer_def test_getAsString_def typeSpelling_def plainType_def
  vectorAt_def ForwardDeclared_def
  MoveConstructorThrows_def MoveConstructorThrows_copy_def MoveConstructorThrows_move_def
  DerivedFromMoveConstructorThrows_def Inner_def Inner_Bar_def ThisMemberIsFine_def Foo_def
  ContainsThrowingMoveConstructor_def Baz_def ContainsDeeplyNestedThrowingMoveConstructor_def
  NothrowMoveConstructibleExample_def NothrowMoveConstructibleExample_move_def
  TriviallyCopyableExample_def

lemmas more_defs =
  more_Decls_def more_SpecAnalyzer_def Incomplete_def VirtualBase_def VirtuallyDerived_def
  TwoMoveConstructors_def TwoMoveConstructors_first_def TwoMoveConstructors_second_def
  UnknownMove_def UnknownMove_move_def SelfContaining_def SelfContaining_Self_def

lemmas note_defs =
  definedHere_def throwingCtorHere_def becauseMember_def becauseBase_def primaryWarning_def

lemma f4_chain:
  "recursivelyCheckMembers test_Decls test_SpecAnalyzer test_getAsString
     (plainType (RecordType 4 ''struct ContainsDeeplyNestedThrowingMoveConstructor'')) 1 =
   [definedHere test_getAsString ContainsDeeplyNestedThrowingMoveConstructor,
    becauseMember test_getAsString Baz,
    definedHere test_getAsString ContainsThrowingMoveConstructor,
    becauseMember test_getAsString Foo,
    definedHere test_getAsString Inner,
    becauseMember test_getAsString Inner_Bar]"
  by (simp add: recursivelyCheckMembers.simps query_defs test_defs note_defs)

lemma step_kinds:
  "isLocatorStep (definedHere pr Record)" "isThrowingCtorStep (throwingCtorHere C)"
  "isBecauseStep (becauseMember pr F)" "isBecauseStep (becauseBase pr B)"
  by (simp_all add: isLocatorStep_def isThrowingCtorStep_def isBecauseStep_def note_defs diag_def)

lemma chain_cases:
  obtains
    (empty) "recursivelyCheckMembers Decls SA pr T d = []"
  | (leaf) Record where "recursivelyCheckMembers Decls SA pr T d = [definedHere pr Record]"
  | (ctor) Record C where
      "recursivelyCheckMembers Decls SA pr T d = [definedHere pr Record, throwingCtorHere C]"
  | (stop) Record N where "isBecauseStep N"
      "recursivelyCheckMembers Decls SA pr T d = [definedHere pr Record, N]"
  | (descend) Record N T' where "isBecauseStep N" "d < MaxRecursionDepth"
      "recursivelyCheckMembers Decls SA pr T d =
         definedHere pr Record # N # recursivelyCheckMembers Decls SA pr T' (d + 1)"
proof (cases "getAsCXXRecordDecl Decls T")
  case None
  then show ?thesis using empty by (simp add: recursivelyCheckMembers_no_record)
next
  case (Some Record)
  show ?thesis
  proof (cases "rec_hasDefinition Record")
    case False
    with Some show ?thesis using empty by (simp add: recursivelyCheckMembers_no_definition)
  next
    case True
    note unfold = recursivelyCheckMembers_defined [OF Some True, of SA pr d]
    show ?thesis
    proof (cases "getThrowingUserDefinedMoveConstructor Record SA")
      case (Some C)
      then show ?thesis using unfold ctor by simp
    next
      case noCtor: None
      show ?thesis
      proof (cases "getFirstThrowingDataMember Decls Record SA")
        case (Some F)
        show ?thesis
        proof (cases "d < MaxRecursionDepth")
          case True
          then show ?thesis
            using unfold noCtor Some descend [of "becauseMember pr F" Record "field_getType F"]
            by (simp add: step_kinds)
        next
          case False
          then show ?thesis
            using unfold noCtor Some stop [of "becauseMember pr F" Record]
            by (simp add: step_kinds)
        qed
      next
        case noMember: None
        show ?thesis
        proof (cases "getFirstThrowingBaseClass Decls Record SA")
          case None
          then show ?thesis using unfold noCtor noMember leaf by simp
        next
          case (Some B)
          show ?thesis
          proof (cases "d < MaxRecursionDepth")
            case True
            then show ?thesis
              using unfold noCtor noMember Some
                descend [of "becauseBase pr B" Record "base_getType B"]
              by (simp add: step_kinds)
          next
            case False
            then show ?thesis
              using unfold noCtor noMember Some stop [of "becauseBase pr B" Record]
              by (simp add: step_kinds)
          qed
        qed
      qed
    qed
  qed
qed

lemma notes_alternate:
  "alternates (recursivelyCheckMembers Decls SA pr T d)"
proof (induction "MaxRecursionDepth - d" arbitrary: T d)
  case 0
  then show ?case
    by (cases rule: chain_cases [of Decls SA pr T d])
       (simp_all add: step_kinds isCauseStep_def)
next
  case (Suc k)
  show ?case
  proof (cases rule: chain_cases [of Decls SA pr T d])
    case (descend Record N T')
    have "alternates (recursivelyCheckMembers Decls SA pr T' (d + 1))"
      using Suc.hyps(1) [of "d + 1" T'] Suc.hyps(2) by simp
    with descend show ?thesis by (simp add: step_kinds isCauseStep_def)
  qed (simp_all add: step_kinds isCauseStep_def)
qed

lemma notes_are_notes:
  "N \<in> set (recursivelyCheckMembers Decls SA pr T d) \<Longrightarrow> diag_level N = Note"
proof (induction "MaxRecursionDepth - d" arbitrary: T d)
  case 0
  then show ?case
    by (cases rule: chain_cases [of Decls SA pr T d])
       (auto simp: isBecauseStep_def note_defs diag_def)
next
  case (Suc k)
  show ?case
  proof (cases rule: chain_cases [of Decls SA pr T d])
    case (descend Record M T')
    have "N \<in> set (recursivelyCheckMembers Decls SA pr T' (d + 1)) \<Longrightarrow> diag_level N = Note"
      using Suc.hyps(1) [of "d + 1" T'] Suc.hyps(2) by simp
    with descend Suc.prems show ?thesis
      by (auto simp: isBecauseStep_def note_defs diag_def)
  qed (use Suc.prems in \<open>auto simp: isBecauseStep_def note_defs diag_def\<close>)
qed

lemma chain_length_bound:
  "length (recursivelyCheckMembers Decls SA pr T d) \<le> 2 * Suc (MaxRecursionDepth - d)"
proof (induction "MaxRecursionDepth - d" arbitrary: T d)
  case 0
  then show ?case
    by (cases rule: chain_cases [of Decls SA pr T d]) simp_all
next
  case (Suc k)
  show ?case
  proof (cases rule: chain_cases [of Decls SA pr T d])
    case (descend Record N T')
    have "length (recursivelyCheckMembers Decls SA pr T' (d + 1))
            \<le> 2 * Suc (MaxRecursionDepth - (d + 1))"
      using Suc.hyps(1) [of "d + 1" T'] Suc.hyps(2) by simp
    with descend show ?thesis by simp
  qed simp_all
qed

section \<open>The degradation predicate\<close>

text \<open>
  Claim C6. For every builtin type, every enumeration type, and every class type with a
  visible definition that is trivially copyable, \<open>willDegradeToCopy\<close> is false,
  whatever constructors the class declares and however the analyzer classifies them.
\<close>

theorem trivially_copyable_never_degrades:
  assumes "isBuiltinType T \<or> isEnumeralType T \<or>
           (\<exists>Record. getAsCXXRecordDecl Decls T = Some Record \<and> rec_hasDefinition Record \<and>
                      rec_isTriviallyCopyable Record)"
  shows "\<not> willDegradeToCopy Decls T SpecAnalyzer"
proof -
  from assms have "isTriviallyCopyable Decls T"
    by (auto simp: isTriviallyCopyable_def)
  then show ?thesis by (simp add: willDegradeToCopy_def)
qed

text \<open>
  The test file's \<open>int\<close>, \<open>ExampleEnum\<close> and \<open>TriviallyCopyableExample\<close>, the last
  one also under an analyzer that classifies every constructor as \<open>Throwing\<close>.
\<close>

theorem trivially_copyable_never_degrades_witness:
  "\<not> willDegradeToCopy test_Decls (plainType (BuiltinType ''int'')) test_SpecAnalyzer \<and>
   \<not> willDegradeToCopy test_Decls (plainType (EnumType ''ExampleEnum'')) test_SpecAnalyzer \<and>
   \<not> willDegradeToCopy test_Decls
        (plainType (RecordType 6 ''struct TriviallyCopyableExample'')) test_SpecAnalyzer \<and>
   \<not> willDegradeToCopy test_Decls
        (plainType (RecordType 6 ''struct TriviallyCopyableExample'')) (\<lambda>C. Throwing)"
proof -
  have a: "isBuiltinType (plainType (BuiltinType ''int''))"
    by (simp add: isBuiltinType_def plainType_def)
  have b: "isEnumeralType (plainType (EnumType ''ExampleEnum''))"
    by (simp add: isEnumeralType_def plainType_def)
  have c: "\<exists>Record. getAsCXXRecordDecl test_Decls
             (plainType (RecordType 6 ''struct TriviallyCopyableExample'')) = Some Record \<and>
             rec_hasDefinition Record \<and> rec_isTriviallyCopyable Record"
    by (simp add: getAsCXXRecordDecl_def plainType_def test_Decls_def TriviallyCopyableExample_def)
  show ?thesis
    using trivially_copyable_never_degrades [of "plainType (BuiltinType ''int'')" test_Decls test_SpecAnalyzer]
      trivially_copyable_never_degrades [of "plainType (EnumType ''ExampleEnum'')" test_Decls test_SpecAnalyzer]
      trivially_copyable_never_degrades [of "plainType (RecordType 6 ''struct TriviallyCopyableExample'')" test_Decls test_SpecAnalyzer]
      trivially_copyable_never_degrades [of "plainType (RecordType 6 ''struct TriviallyCopyableExample'')" test_Decls "\<lambda>C. Throwing"]
      a b c by blast
qed

text \<open>
  Claim C1, as the code has it. For a record type whose declaration has no definition,
  \<open>isTriviallyCopyable\<close> and \<open>hasNothrowMoveConstructor\<close> both answer false, so
  \<open>willDegradeToCopy\<close> is true, not false; the chain builder returns at once and emits
  no step.
\<close>

theorem incomplete_type_degrades:
  assumes "getAsCXXRecordDecl Decls T = Some Record" and "\<not> rec_hasDefinition Record"
  shows "\<not> isTriviallyCopyable Decls T \<and>
         \<not> hasNothrowMoveConstructor Decls T SpecAnalyzer \<and>
         willDegradeToCopy Decls T SpecAnalyzer \<and>
         recursivelyCheckMembers Decls SpecAnalyzer getAsString T RecursionDepth = []"
proof -
  from assms(1) have "\<not> isBuiltinType T" "\<not> isEnumeralType T"
    using record_type_class by blast+
  with assms have "\<not> isTriviallyCopyable Decls T" "\<not> hasNothrowMoveConstructor Decls T SpecAnalyzer"
    by (simp_all add: isTriviallyCopyable_def hasNothrowMoveConstructor_def)
  then show ?thesis
    using assms by (simp add: willDegradeToCopy_def recursivelyCheckMembers_no_definition)
qed

theorem incomplete_type_degrades_witness:
  "getAsCXXRecordDecl more_Decls (plainType (RecordType 7 ''struct Incomplete'')) = Some Incomplete \<and>
   \<not> rec_hasDefinition Incomplete \<and>
   willDegradeToCopy more_Decls (plainType (RecordType 7 ''struct Incomplete'')) more_SpecAnalyzer \<and>
   recursivelyCheckMembers more_Decls more_SpecAnalyzer test_getAsString
     (plainType (RecordType 7 ''struct Incomplete'')) 1 = []"
proof -
  have a: "getAsCXXRecordDecl more_Decls (plainType (RecordType 7 ''struct Incomplete'')) = Some Incomplete"
    by (simp add: getAsCXXRecordDecl_def plainType_def more_Decls_def)
  have b: "\<not> rec_hasDefinition Incomplete"
    by (simp add: Incomplete_def ForwardDeclared_def)
  show ?thesis
    using incomplete_type_degrades [OF a b, of more_SpecAnalyzer test_getAsString 1] a b by simp
qed

text \<open>
  The claim as the specification words it (the predicate is false for an incomplete
  type) fails at \<open>struct Incomplete;\<close>.
\<close>

theorem incomplete_type_counterexample:
  "getAsCXXRecordDecl more_Decls (plainType (RecordType 7 ''struct Incomplete'')) = Some Incomplete \<and>
   \<not> rec_hasDefinition Incomplete \<and>
   willDegradeToCopy more_Decls (plainType (RecordType 7 ''struct Incomplete'')) more_SpecAnalyzer"
  by (simp add: query_defs more_defs test_defs)

text \<open>
  Claim C10. For a type that is neither builtin nor an enumeration and has no defined
  record behind it (no record at all, as for a pointer, or a record without
  definition), \<open>willDegradeToCopy\<close> is true, the chain builder emits nothing, and
  \<open>check\<close> emits the primary warning alone.
\<close>

theorem no_record_definition_warns_without_notes:
  assumes "\<not> isBuiltinType T" and "\<not> isEnumeralType T"
    and "getAsCXXRecordDecl Decls T = None \<or>
         (\<exists>Record. getAsCXXRecordDecl Decls T = Some Record \<and> \<not> rec_hasDefinition Record)"
  shows "\<not> isTriviallyCopyable Decls T \<and>
         \<not> hasNothrowMoveConstructor Decls T SpecAnalyzer \<and>
         willDegradeToCopy Decls T SpecAnalyzer \<and>
         recursivelyCheckMembers Decls SpecAnalyzer getAsString T RecursionDepth = [] \<and>
         check Decls SpecAnalyzer getAsString (Some VT) (Some T) =
           [primaryWarning getAsString VT T]"
proof -
  from assms have triv: "\<not> isTriviallyCopyable Decls T"
    by (auto simp: isTriviallyCopyable_def)
  from assms(3) have nothrow: "\<not> hasNothrowMoveConstructor Decls T SpecAnalyzer"
    by (auto simp: hasNothrowMoveConstructor_def)
  from assms(3) have chain: "recursivelyCheckMembers Decls SpecAnalyzer getAsString T d = []" for d
    by (auto simp: recursivelyCheckMembers_no_record recursivelyCheckMembers_no_definition)
  from triv nothrow have deg: "willDegradeToCopy Decls T SpecAnalyzer"
    by (simp add: willDegradeToCopy_def)
  from deg chain have "check Decls SpecAnalyzer getAsString (Some VT) (Some T) =
           [primaryWarning getAsString VT T]"
    by (simp add: check_def primaryWarning_def)
  with triv nothrow deg chain show ?thesis by simp
qed

text \<open>A vector of \<open>int *\<close>.\<close>

theorem no_record_definition_warns_without_notes_witness:
  "\<not> isBuiltinType (plainType (OtherType ''int *'')) \<and>
   \<not> isEnumeralType (plainType (OtherType ''int *'')) \<and>
   getAsCXXRecordDecl test_Decls (plainType (OtherType ''int *'')) = None \<and>
   willDegradeToCopy test_Decls (plainType (OtherType ''int *'')) test_SpecAnalyzer \<and>
   recursivelyCheckMembers test_Decls test_SpecAnalyzer test_getAsString
     (plainType (OtherType ''int *'')) 1 = [] \<and>
   check test_Decls test_SpecAnalyzer test_getAsString
     (Some (vectorAt (90, 35) ''vector<int *>'')) (Some (plainType (OtherType ''int *''))) =
     [\<lparr>diag_loc = (90, 35), diag_message = WarningMessage, diag_level = Warning,
       diag_args = [''vector<int *>'', ''int *'']\<rparr>]"
proof -
  have a: "\<not> isBuiltinType (plainType (OtherType ''int *''))"
    by (simp add: isBuiltinType_def plainType_def)
  have b: "\<not> isEnumeralType (plainType (OtherType ''int *''))"
    by (simp add: isEnumeralType_def plainType_def)
  have c: "getAsCXXRecordDecl test_Decls (plainType (OtherType ''int *'')) = None"
    by (simp add: getAsCXXRecordDecl_def plainType_def)
  have p: "primaryWarning test_getAsString (vectorAt (90, 35) ''vector<int *>'')
             (plainType (OtherType ''int *'')) =
           \<lparr>diag_loc = (90, 35), diag_message = WarningMessage, diag_level = Warning,
            diag_args = [''vector<int *>'', ''int *'']\<rparr>"
    by (simp add: primaryWarning_def diag_def vectorAt_def plainType_def test_getAsString_def
        typeSpelling_def)
  show ?thesis
    using no_record_definition_warns_without_notes [OF a b, of test_Decls test_SpecAnalyzer
        test_getAsString 1 "vectorAt (90, 35) ''vector<int *>''"] a b c p
    by simp
qed

text \<open>
  Claim C2, as the code has it. \<open>hasNothrowMoveConstructor\<close> answers
  \<open>analyze(Constructor) != State::Throwing\<close> at the first declared move constructor, so
  a classification \<open>Unknown\<close> counts like \<open>NotThrowing\<close>: a defined record that is not
  trivially copyable degrades exactly when its first declared move constructor is
  classified \<open>Throwing\<close>.
\<close>

theorem unknown_move_constructor_counts_as_nothrow:
  assumes "getAsCXXRecordDecl Decls T = Some Record" and "rec_hasDefinition Record"
    and "\<not> rec_isTriviallyCopyable Record"
    and "find ctor_isMoveConstructor (rec_ctors Record) = Some Constructor"
  shows "willDegradeToCopy Decls T SpecAnalyzer = (SpecAnalyzer Constructor = Throwing)"
proof -
  from assms(1) have "\<not> isBuiltinType T" "\<not> isEnumeralType T"
    using record_type_class by blast+
  with assms have triv: "\<not> isTriviallyCopyable Decls T"
    by (simp add: isTriviallyCopyable_def)
  from assms have "hasNothrowMoveConstructor Decls T SpecAnalyzer =
                     (SpecAnalyzer Constructor \<noteq> Throwing)"
    by (simp add: hasNothrowMoveConstructor_def hasNothrowMoveConstructor_loop_find)
  with triv show ?thesis by (simp add: willDegradeToCopy_def)
qed

theorem unknown_move_constructor_counts_as_nothrow_witness:
  "getAsCXXRecordDecl more_Decls (plainType (RecordType 10 ''struct UnknownMove'')) = Some UnknownMove \<and>
   rec_hasDefinition UnknownMove \<and> \<not> rec_isTriviallyCopyable UnknownMove \<and>
   find ctor_isMoveConstructor (rec_ctors UnknownMove) = Some UnknownMove_move \<and>
   more_SpecAnalyzer UnknownMove_move = Unknown \<and>
   \<not> willDegradeToCopy more_Decls (plainType (RecordType 10 ''struct UnknownMove'')) more_SpecAnalyzer"
proof -
  have a: "getAsCXXRecordDecl more_Decls (plainType (RecordType 10 ''struct UnknownMove'')) = Some UnknownMove"
    by (simp add: getAsCXXRecordDecl_def plainType_def more_Decls_def)
  have b: "rec_hasDefinition UnknownMove" and c: "\<not> rec_isTriviallyCopyable UnknownMove"
    by (simp_all add: UnknownMove_def)
  have d: "find ctor_isMoveConstructor (rec_ctors UnknownMove) = Some UnknownMove_move"
    by (simp add: UnknownMove_def UnknownMove_move_def)
  have e: "more_SpecAnalyzer UnknownMove_move = Unknown"
    by (simp add: more_SpecAnalyzer_def test_SpecAnalyzer_def UnknownMove_move_def)
  show ?thesis
    using unknown_move_constructor_counts_as_nothrow [OF a b c d, of more_SpecAnalyzer] a b c d e
    by simp
qed

text \<open>
  The claim as the specification words it (\<open>Unknown\<close> counts toward degrading) fails at
  \<open>UnknownMove\<close>.
\<close>

theorem unknown_move_constructor_counterexample:
  "getAsCXXRecordDecl more_Decls (plainType (RecordType 10 ''struct UnknownMove'')) = Some UnknownMove \<and>
   rec_hasDefinition UnknownMove \<and>
   \<not> isTriviallyCopyable more_Decls (plainType (RecordType 10 ''struct UnknownMove'')) \<and>
   rec_ctors UnknownMove = [UnknownMove_move] \<and> ctor_isMoveConstructor UnknownMove_move \<and>
   more_SpecAnalyzer UnknownMove_move = Unknown \<and>
   \<not> willDegradeToCopy more_Decls (plainType (RecordType 10 ''struct UnknownMove'')) more_SpecAnalyzer"
  by (simp add: query_defs more_defs test_defs)

section \<open>The causal chain\<close>

text \<open>
  Claim C5, as the code has it. Both scans stop at the first matching constructor. For
  a defined record that is not trivially copyable and whose first declared move
  constructor is user-provided and classified \<open>Throwing\<close>, \<open>willDegradeToCopy\<close> is
  true and the chain is the locator step followed by the note
  \<open>throwing move constructor declared here\<close> at that constructor's location, and
  nothing more, at every depth.
\<close>

theorem throwing_user_move_constructor_is_root_cause:
  assumes "getAsCXXRecordDecl Decls T = Some Record" and "rec_hasDefinition Record"
    and "\<not> rec_isTriviallyCopyable Record"
    and "find ctor_isMoveConstructor (rec_ctors Record) = Some Constructor"
    and "ctor_isUserProvided Constructor"
    and "SpecAnalyzer Constructor = Throwing"
  shows "willDegradeToCopy Decls T SpecAnalyzer \<and>
         getThrowingUserDefinedMoveConstructor Record SpecAnalyzer = Some Constructor \<and>
         recursivelyCheckMembers Decls SpecAnalyzer getAsString T RecursionDepth =
           [definedHere getAsString Record,
            diag (ctor_getLocation Constructor) ThrowingCtorMessage Note []]"
proof -
  from assms(1) have "\<not> isBuiltinType T" "\<not> isEnumeralType T"
    using record_type_class by blast+
  with assms have triv: "\<not> isTriviallyCopyable Decls T"
    by (simp add: isTriviallyCopyable_def)
  from assms have "\<not> hasNothrowMoveConstructor Decls T SpecAnalyzer"
    by (simp add: hasNothrowMoveConstructor_def hasNothrowMoveConstructor_loop_find)
  with triv have deg: "willDegradeToCopy Decls T SpecAnalyzer"
    by (simp add: willDegradeToCopy_def)
  have first: "find (\<lambda>C. ctor_isMoveConstructor C \<and> ctor_isUserProvided C) Cs = Some Constructor"
    if "find ctor_isMoveConstructor Cs = Some Constructor" for Cs
    using that assms(5) by (induction Cs) (auto split: if_splits)
  from first [OF assms(4)] assms(6)
  have ctor: "getThrowingUserDefinedMoveConstructor Record SpecAnalyzer = Some Constructor"
    by (simp add: getThrowingUserDefinedMoveConstructor_def
        getThrowingUserDefinedMoveConstructor_loop_find)
  from ctor have "recursivelyCheckMembers Decls SpecAnalyzer getAsString T RecursionDepth =
           [definedHere getAsString Record,
            diag (ctor_getLocation Constructor) ThrowingCtorMessage Note []]"
    by (simp add: recursivelyCheckMembers_defined [OF assms(1,2)] throwingCtorHere_def)
  with deg ctor show ?thesis by simp
qed

text \<open>The test file's \<open>MoveConstructorThrows\<close>.\<close>

theorem throwing_user_move_constructor_is_root_cause_witness:
  "getAsCXXRecordDecl test_Decls (plainType (RecordType 0 ''struct MoveConstructorThrows'')) =
     Some MoveConstructorThrows \<and>
   rec_hasDefinition MoveConstructorThrows \<and> \<not> rec_isTriviallyCopyable MoveConstructorThrows \<and>
   find ctor_isMoveConstructor (rec_ctors MoveConstructorThrows) = Some MoveConstructorThrows_move \<and>
   ctor_isUserProvided MoveConstructorThrows_move \<and>
   test_SpecAnalyzer MoveConstructorThrows_move = Throwing \<and>
   willDegradeToCopy test_Decls (plainType (RecordType 0 ''struct MoveConstructorThrows''))
     test_SpecAnalyzer \<and>
   recursivelyCheckMembers test_Decls test_SpecAnalyzer test_getAsString
     (plainType (RecordType 0 ''struct MoveConstructorThrows'')) 1 =
     [\<lparr>diag_loc = (9, 8), diag_message = DefinedHereMessage, diag_level = Note,
       diag_args = [''struct MoveConstructorThrows'']\<rparr>,
      \<lparr>diag_loc = (11, 5), diag_message = ThrowingCtorMessage, diag_level = Note,
       diag_args = []\<rparr>]"
proof -
  have a: "getAsCXXRecordDecl test_Decls (plainType (RecordType 0 ''struct MoveConstructorThrows'')) =
     Some MoveConstructorThrows"
    by (simp add: getAsCXXRecordDecl_def plainType_def test_Decls_def)
  have b: "rec_hasDefinition MoveConstructorThrows"
    and c: "\<not> rec_isTriviallyCopyable MoveConstructorThrows"
    by (simp_all add: MoveConstructorThrows_def)
  have d: "find ctor_isMoveConstructor (rec_ctors MoveConstructorThrows) = Some MoveConstructorThrows_move"
    by (simp add: MoveConstructorThrows_def MoveConstructorThrows_move_def MoveConstructorThrows_copy_def)
  have e: "ctor_isUserProvided MoveConstructorThrows_move"
    by (simp add: MoveConstructorThrows_move_def)
  have f: "test_SpecAnalyzer MoveConstructorThrows_move = Throwing"
    by (simp add: test_SpecAnalyzer_def MoveConstructorThrows_move_def)
  have g: "definedHere test_getAsString MoveConstructorThrows =
     \<lparr>diag_loc = (9, 8), diag_message = DefinedHereMessage, diag_level = Note,
       diag_args = [''struct MoveConstructorThrows'']\<rparr>"
    by (simp add: definedHere_def diag_def MoveConstructorThrows_def test_getAsString_def
        typeSpelling_def)
  have h: "diag (ctor_getLocation MoveConstructorThrows_move) ThrowingCtorMessage Note [] =
      \<lparr>diag_loc = (11, 5), diag_message = ThrowingCtorMessage, diag_level = Note,
       diag_args = []\<rparr>"
    by (simp add: diag_def MoveConstructorThrows_move_def)
  show ?thesis
    using throwing_user_move_constructor_is_root_cause
        [where SpecAnalyzer = test_SpecAnalyzer and Constructor = MoveConstructorThrows_move
           and getAsString = test_getAsString and RecursionDepth = 1, OF a b c d e f]
      a b c d e f g h
    by simp
qed

text \<open>
  The claim for every type that has some user-provided move constructor classified
  \<open>Throwing\<close> fails at \<open>TwoMoveConstructors\<close>: the throwing one is declared second, the
  first is classified \<open>NotThrowing\<close>, the predicate is false and the chain has no cause.
\<close>

theorem throwing_user_move_constructor_counterexample:
  "getAsCXXRecordDecl more_Decls (plainType (RecordType 9 ''struct TwoMoveConstructors'')) =
     Some TwoMoveConstructors \<and>
   rec_hasDefinition TwoMoveConstructors \<and>
   rec_ctors TwoMoveConstructors = [TwoMoveConstructors_first, TwoMoveConstructors_second] \<and>
   ctor_isMoveConstructor TwoMoveConstructors_second \<and>
   ctor_isUserProvided TwoMoveConstructors_second \<and>
   more_SpecAnalyzer TwoMoveConstructors_second = Throwing \<and>
   \<not> willDegradeToCopy more_Decls (plainType (RecordType 9 ''struct TwoMoveConstructors''))
       more_SpecAnalyzer \<and>
   recursivelyCheckMembers more_Decls more_SpecAnalyzer test_getAsString
     (plainType (RecordType 9 ''struct TwoMoveConstructors'')) 1 =
     [definedHere test_getAsString TwoMoveConstructors]"
  by (simp add: recursivelyCheckMembers.simps query_defs more_defs test_defs note_defs)

text \<open>
  Claim C3, as the code has it. Three nested records, each without a throwing
  user-provided move constructor and each with a first degrading member of the next
  type, queried at depth 1: the chain is three locator steps and three
  \<open>because the move constructor of ... may throw\<close> steps in alternation, and it ends with
  the third of these. Whatever the innermost member's type is, neither its locator step
  nor a throwing-constructor note is emitted, and no other marker.
\<close>

theorem depth_limit_ends_at_third_cause:
  assumes "getAsCXXRecordDecl Decls T = Some R1" and "rec_hasDefinition R1"
    and "getThrowingUserDefinedMoveConstructor R1 SpecAnalyzer = None"
    and "getFirstThrowingDataMember Decls R1 SpecAnalyzer = Some F1"
    and "getAsCXXRecordDecl Decls (field_getType F1) = Some R2" and "rec_hasDefinition R2"
    and "getThrowingUserDefinedMoveConstructor R2 SpecAnalyzer = None"
    and "getFirstThrowingDataMember Decls R2 SpecAnalyzer = Some F2"
    and "getAsCXXRecordDecl Decls (field_getType F2) = Some R3" and "rec_hasDefinition R3"
    and "getThrowingUserDefinedMoveConstructor R3 SpecAnalyzer = None"
    and "getFirstThrowingDataMember Decls R3 SpecAnalyzer = Some F3"
  shows "recursivelyCheckMembers Decls SpecAnalyzer getAsString T 1 =
           [definedHere getAsString R1, becauseMember getAsString F1,
            definedHere getAsString R2, becauseMember getAsString F2,
            definedHere getAsString R3, becauseMember getAsString F3] \<and>
         length (filter isBecauseStep
                   (recursivelyCheckMembers Decls SpecAnalyzer getAsString T 1)) = 3 \<and>
         length (filter isThrowingCtorStep
                   (recursivelyCheckMembers Decls SpecAnalyzer getAsString T 1)) = 0 \<and>
         last (recursivelyCheckMembers Decls SpecAnalyzer getAsString T 1) =
           becauseMember getAsString F3"
proof -
  have l3: "recursivelyCheckMembers Decls SpecAnalyzer getAsString (field_getType F2)
              (Suc (Suc (Suc 0))) =
              [definedHere getAsString R3, becauseMember getAsString F3]"
    using assms(11,12)
    by (simp add: recursivelyCheckMembers_defined [OF assms(9,10)] MaxRecursionDepth_def)
  have l2: "recursivelyCheckMembers Decls SpecAnalyzer getAsString (field_getType F1)
              (Suc (Suc 0)) =
              [definedHere getAsString R2, becauseMember getAsString F2,
               definedHere getAsString R3, becauseMember getAsString F3]"
    using assms(7,8) l3
    by (simp add: recursivelyCheckMembers_defined [OF assms(5,6)] MaxRecursionDepth_def)
  have l1: "recursivelyCheckMembers Decls SpecAnalyzer getAsString T 1 =
           [definedHere getAsString R1, becauseMember getAsString F1,
            definedHere getAsString R2, becauseMember getAsString F2,
            definedHere getAsString R3, becauseMember getAsString F3]"
    using assms(3,4) l2
    by (simp add: recursivelyCheckMembers_defined [OF assms(1,2)] MaxRecursionDepth_def)
  have kinds: "\<not> isBecauseStep (definedHere getAsString R)"
      "\<not> isThrowingCtorStep (definedHere getAsString R)"
      "\<not> isThrowingCtorStep (becauseMember getAsString F)" for R F
    using messages_distinct
    by (simp_all add: isBecauseStep_def isThrowingCtorStep_def definedHere_def becauseMember_def diag_def)
  show ?thesis
    unfolding l1 by (simp add: kinds step_kinds)
qed

text \<open>
  The test file's \<open>ContainsDeeplyNestedThrowingMoveConstructor\<close>: the last note is the
  one at 30:37, as the test expects.
\<close>

theorem depth_limit_ends_at_third_cause_witness:
  "getAsCXXRecordDecl test_Decls
     (plainType (RecordType 4 ''struct ContainsDeeplyNestedThrowingMoveConstructor'')) =
     Some ContainsDeeplyNestedThrowingMoveConstructor \<and>
   getFirstThrowingDataMember test_Decls ContainsDeeplyNestedThrowingMoveConstructor
     test_SpecAnalyzer = Some Baz \<and>
   getAsCXXRecordDecl test_Decls (field_getType Baz) = Some ContainsThrowingMoveConstructor \<and>
   getFirstThrowingDataMember test_Decls ContainsThrowingMoveConstructor test_SpecAnalyzer =
     Some Foo \<and>
   getAsCXXRecordDecl test_Decls (field_getType Foo) = Some Inner \<and>
   getFirstThrowingDataMember test_Decls Inner test_SpecAnalyzer = Some Inner_Bar \<and>
   getAsCXXRecordDecl test_Decls (field_getType Inner_Bar) = Some MoveConstructorThrows \<and>
   recursivelyCheckMembers test_Decls test_SpecAnalyzer test_getAsString
     (plainType (RecordType 4 ''struct ContainsDeeplyNestedThrowingMoveConstructor'')) 1 =
     [definedHere test_getAsString ContainsDeeplyNestedThrowingMoveConstructor,
      becauseMember test_getAsString Baz,
      definedHere test_getAsString ContainsThrowingMoveConstructor,
      becauseMember test_getAsString Foo,
      definedHere test_getAsString Inner,
      becauseMember test_getAsString Inner_Bar] \<and>
   becauseMember test_getAsString Inner_Bar =
     \<lparr>diag_loc = (30, 37), diag_message = BecauseMessage, diag_level = Note,
      diag_args = [''MoveConstructorThrows'']\<rparr>"
proof -
  have r1: "getAsCXXRecordDecl test_Decls
     (plainType (RecordType 4 ''struct ContainsDeeplyNestedThrowingMoveConstructor'')) =
     Some ContainsDeeplyNestedThrowingMoveConstructor"
    by (simp add: getAsCXXRecordDecl_def plainType_def test_Decls_def)
  have d1: "rec_hasDefinition ContainsDeeplyNestedThrowingMoveConstructor"
    by (simp add: ContainsDeeplyNestedThrowingMoveConstructor_def)
  have c1: "getThrowingUserDefinedMoveConstructor ContainsDeeplyNestedThrowingMoveConstructor
              test_SpecAnalyzer = None"
    by (simp add: getThrowingUserDefinedMoveConstructor_def
        ContainsDeeplyNestedThrowingMoveConstructor_def)
  have f1: "getFirstThrowingDataMember test_Decls ContainsDeeplyNestedThrowingMoveConstructor
     test_SpecAnalyzer = Some Baz"
    by (simp add: query_defs test_defs)
  have r2: "getAsCXXRecordDecl test_Decls (field_getType Baz) = Some ContainsThrowingMoveConstructor"
    by (simp add: getAsCXXRecordDecl_def plainType_def test_Decls_def Baz_def)
  have d2: "rec_hasDefinition ContainsThrowingMoveConstructor"
    by (simp add: ContainsThrowingMoveConstructor_def)
  have c2: "getThrowingUserDefinedMoveConstructor ContainsThrowingMoveConstructor
              test_SpecAnalyzer = None"
    by (simp add: getThrowingUserDefinedMoveConstructor_def ContainsThrowingMoveConstructor_def)
  have f2: "getFirstThrowingDataMember test_Decls ContainsThrowingMoveConstructor
              test_SpecAnalyzer = Some Foo"
    by (simp add: query_defs test_defs)
  have r3: "getAsCXXRecordDecl test_Decls (field_getType Foo) = Some Inner"
    by (simp add: getAsCXXRecordDecl_def plainType_def test_Decls_def Foo_def)
  have d3: "rec_hasDefinition Inner"
    by (simp add: Inner_def)
  have c3: "getThrowingUserDefinedMoveConstructor Inner test_SpecAnalyzer = None"
    by (simp add: getThrowingUserDefinedMoveConstructor_def Inner_def)
  have f3: "getFirstThrowingDataMember test_Decls Inner test_SpecAnalyzer = Some Inner_Bar"
    by (simp add: query_defs test_defs)
  have leaf: "getAsCXXRecordDecl test_Decls (field_getType Inner_Bar) = Some MoveConstructorThrows"
    by (simp add: getAsCXXRecordDecl_def test_Decls_def Inner_Bar_def)
  have lastNote: "becauseMember test_getAsString Inner_Bar =
     \<lparr>diag_loc = (30, 37), diag_message = BecauseMessage, diag_level = Note,
      diag_args = [''MoveConstructorThrows'']\<rparr>"
    by (simp add: becauseMember_def diag_def Inner_Bar_def removeLocalFastQualifiers_def
        test_getAsString_def typeSpelling_def)
  show ?thesis
    using depth_limit_ends_at_third_cause [OF r1 d1 c1 f1 r2 d2 c2 f2 r3 d3 c3 f3,
        of test_getAsString] r1 f1 r2 f2 r3 f3 leaf lastNote
    by simp
qed

text \<open>
  The claim as the specification words it (the output reaches the locator step of
  \<open>MoveConstructorThrows\<close>) fails there: that step is not in the chain.
\<close>

theorem depth_limit_fixture_counterexample:
  "length (filter isBecauseStep
     (recursivelyCheckMembers test_Decls test_SpecAnalyzer test_getAsString
        (plainType (RecordType 4 ''struct ContainsDeeplyNestedThrowingMoveConstructor'')) 1)) = 3 \<and>
   last (recursivelyCheckMembers test_Decls test_SpecAnalyzer test_getAsString
        (plainType (RecordType 4 ''struct ContainsDeeplyNestedThrowingMoveConstructor'')) 1)
     \<noteq> definedHere test_getAsString MoveConstructorThrows \<and>
   definedHere test_getAsString MoveConstructorThrows \<notin>
     set (recursivelyCheckMembers test_Decls test_SpecAnalyzer test_getAsString
        (plainType (RecordType 4 ''struct ContainsDeeplyNestedThrowingMoveConstructor'')) 1)"
proof -
  have kinds: "\<not> isBecauseStep (definedHere getAsString R)" for getAsString R
    using messages_distinct by (simp add: isBecauseStep_def definedHere_def diag_def)
  have locs: "definedHere test_getAsString MoveConstructorThrows \<noteq> N"
    if "diag_loc N \<noteq> (9, 8)" for N
    using that by (auto simp: definedHere_def diag_def MoveConstructorThrows_def)
  have "definedHere test_getAsString MoveConstructorThrows \<noteq>
          definedHere test_getAsString ContainsDeeplyNestedThrowingMoveConstructor"
       "definedHere test_getAsString MoveConstructorThrows \<noteq> becauseMember test_getAsString Baz"
       "definedHere test_getAsString MoveConstructorThrows \<noteq>
          definedHere test_getAsString ContainsThrowingMoveConstructor"
       "definedHere test_getAsString MoveConstructorThrows \<noteq> becauseMember test_getAsString Foo"
       "definedHere test_getAsString MoveConstructorThrows \<noteq> definedHere test_getAsString Inner"
       "definedHere test_getAsString MoveConstructorThrows \<noteq> becauseMember test_getAsString Inner_Bar"
    by (rule locs, simp add: definedHere_def becauseMember_def diag_def test_defs)+
  then show ?thesis
    unfolding f4_chain by (simp add: kinds step_kinds)
qed

text \<open>
  Claim C4, as the code has it. The scan of the bases returns the first degrading base
  among the non-virtual ones, so a virtual base is never returned. For a defined record
  with no throwing user-provided move constructor, no degrading member, and only virtual
  degrading bases, the chain is the locator step alone, with no cause step; \<open>check\<close>
  emits the warning and that locator step when the record itself degrades, and nothing
  otherwise.
\<close>

theorem virtual_bases_are_skipped:
  "getFirstThrowingBaseClass Decls Record SpecAnalyzer =
     find (\<lambda>B. willDegradeToCopy Decls (base_getType B) SpecAnalyzer)
       (filter (\<lambda>B. \<not> base_isVirtual B) (rec_bases Record)) \<and>
   (getAsCXXRecordDecl Decls T = Some Record \<and> rec_hasDefinition Record \<and>
    getThrowingUserDefinedMoveConstructor Record SpecAnalyzer = None \<and>
    getFirstThrowingDataMember Decls Record SpecAnalyzer = None \<and>
    (\<forall>B \<in> set (rec_bases Record).
       willDegradeToCopy Decls (base_getType B) SpecAnalyzer \<longrightarrow> base_isVirtual B)
    \<longrightarrow>
    getFirstThrowingBaseClass Decls Record SpecAnalyzer = None \<and>
    recursivelyCheckMembers Decls SpecAnalyzer getAsString T RecursionDepth =
      [definedHere getAsString Record] \<and>
    check Decls SpecAnalyzer getAsString (Some VT) (Some T) =
      (if willDegradeToCopy Decls T SpecAnalyzer
       then [primaryWarning getAsString VT T, definedHere getAsString Record]
       else []))"
proof -
  have scan: "getFirstThrowingBaseClass_loop Decls Bs SpecAnalyzer =
     find (\<lambda>B. willDegradeToCopy Decls (base_getType B) SpecAnalyzer)
       (filter (\<lambda>B. \<not> base_isVirtual B) Bs)" for Bs
    by (induction Bs) auto
  have first: "getFirstThrowingBaseClass Decls Record SpecAnalyzer =
     find (\<lambda>B. willDegradeToCopy Decls (base_getType B) SpecAnalyzer)
       (filter (\<lambda>B. \<not> base_isVirtual B) (rec_bases Record))"
    by (simp add: getFirstThrowingBaseClass_def scan)
  have second: "getFirstThrowingBaseClass Decls Record SpecAnalyzer = None \<and>
    recursivelyCheckMembers Decls SpecAnalyzer getAsString T RecursionDepth =
      [definedHere getAsString Record] \<and>
    check Decls SpecAnalyzer getAsString (Some VT) (Some T) =
      (if willDegradeToCopy Decls T SpecAnalyzer
       then [primaryWarning getAsString VT T, definedHere getAsString Record]
       else [])"
    if rec: "getAsCXXRecordDecl Decls T = Some Record" and def: "rec_hasDefinition Record"
      and noCtor: "getThrowingUserDefinedMoveConstructor Record SpecAnalyzer = None"
      and noMember: "getFirstThrowingDataMember Decls Record SpecAnalyzer = None"
      and virt: "\<forall>B \<in> set (rec_bases Record).
         willDegradeToCopy Decls (base_getType B) SpecAnalyzer \<longrightarrow> base_isVirtual B"
  proof -
    from virt have noBase: "getFirstThrowingBaseClass Decls Record SpecAnalyzer = None"
      by (auto simp: first find_None_iff)
    have chain: "recursivelyCheckMembers Decls SpecAnalyzer getAsString T d =
      [definedHere getAsString Record]" for d
      using noCtor noMember noBase by (simp add: recursivelyCheckMembers_defined [OF rec def])
    show ?thesis
      using noBase chain by (simp add: check_def primaryWarning_def)
  qed
  from first second show ?thesis by blast
qed

theorem virtual_bases_are_skipped_witness:
  "getAsCXXRecordDecl more_Decls (plainType (RecordType 8 ''struct VirtuallyDerived'')) =
     Some VirtuallyDerived \<and>
   rec_bases VirtuallyDerived = [VirtualBase] \<and> base_isVirtual VirtualBase \<and>
   willDegradeToCopy more_Decls (base_getType VirtualBase) more_SpecAnalyzer \<and>
   getFirstThrowingBaseClass more_Decls VirtuallyDerived more_SpecAnalyzer = None \<and>
   recursivelyCheckMembers more_Decls more_SpecAnalyzer test_getAsString
     (plainType (RecordType 8 ''struct VirtuallyDerived'')) 1 =
     [definedHere test_getAsString VirtuallyDerived]"
proof -
  have a: "getAsCXXRecordDecl more_Decls (plainType (RecordType 8 ''struct VirtuallyDerived'')) =
     Some VirtuallyDerived"
    by (simp add: getAsCXXRecordDecl_def plainType_def more_Decls_def)
  have b: "rec_hasDefinition VirtuallyDerived"
    by (simp add: VirtuallyDerived_def)
  have c: "getThrowingUserDefinedMoveConstructor VirtuallyDerived more_SpecAnalyzer = None"
    by (simp add: getThrowingUserDefinedMoveConstructor_def VirtuallyDerived_def)
  have d: "getFirstThrowingDataMember more_Decls VirtuallyDerived more_SpecAnalyzer = None"
    by (simp add: getFirstThrowingDataMember_def VirtuallyDerived_def)
  have e: "rec_bases VirtuallyDerived = [VirtualBase]" and f: "base_isVirtual VirtualBase"
    by (simp_all add: VirtuallyDerived_def VirtualBase_def)
  have g: "\<forall>B \<in> set (rec_bases VirtuallyDerived).
       willDegradeToCopy more_Decls (base_getType B) more_SpecAnalyzer \<longrightarrow> base_isVirtual B"
    by (simp add: e f)
  have h: "willDegradeToCopy more_Decls (base_getType VirtualBase) more_SpecAnalyzer"
    by (simp add: query_defs more_defs test_defs)
  show ?thesis
    using virtual_bases_are_skipped [of more_Decls VirtuallyDerived more_SpecAnalyzer
        "plainType (RecordType 8 ''struct VirtuallyDerived'')" test_getAsString 1]
      a b c d e f g h
    by simp
qed

text \<open>
  The claim as the specification words it (no diagnostic is produced) fails at
  \<open>VirtuallyDerived\<close>: the warning and the locator step are emitted.
\<close>

theorem virtual_base_only_counterexample:
  "getAsCXXRecordDecl more_Decls (plainType (RecordType 8 ''struct VirtuallyDerived'')) =
     Some VirtuallyDerived \<and>
   rec_ctors VirtuallyDerived = [] \<and> rec_fields VirtuallyDerived = [] \<and>
   rec_bases VirtuallyDerived = [VirtualBase] \<and> base_isVirtual VirtualBase \<and>
   willDegradeToCopy more_Decls (base_getType VirtualBase) more_SpecAnalyzer \<and>
   recursivelyCheckMembers more_Decls more_SpecAnalyzer test_getAsString
     (plainType (RecordType 8 ''struct VirtuallyDerived'')) 1 \<noteq> [] \<and>
   check more_Decls more_SpecAnalyzer test_getAsString
     (Some (vectorAt (75, 35) ''vector<VirtuallyDerived>''))
     (Some (plainType (RecordType 8 ''struct VirtuallyDerived''))) =
     [\<lparr>diag_loc = (75, 35), diag_message = WarningMessage, diag_level = Warning,
       diag_args = [''vector<VirtuallyDerived>'', ''struct VirtuallyDerived'']\<rparr>,
      \<lparr>diag_loc = (74, 8), diag_message = DefinedHereMessage, diag_level = Note,
       diag_args = [''struct VirtuallyDerived'']\<rparr>]"
  by (simp add: check_def recursivelyCheckMembers.simps query_defs more_defs test_defs diag_def)

section \<open>The entry point\<close>

text \<open>
  Claim C7. With both nodes bound, \<open>check\<close> emits something exactly when the element
  type satisfies \<open>willDegradeToCopy\<close>: nothing when it does not; otherwise one warning,
  whose arguments are the printed vector type and element type, followed by the chain
  built from depth 1, which holds notes only.
\<close>

theorem check_reports_iff_degrading:
  "check Decls SpecAnalyzer getAsString (Some VT) (Some T) =
     (if willDegradeToCopy Decls T SpecAnalyzer
      then primaryWarning getAsString VT T #
           recursivelyCheckMembers Decls SpecAnalyzer getAsString T 1
      else []) \<and>
   (check Decls SpecAnalyzer getAsString (Some VT) (Some T) \<noteq> []) =
     willDegradeToCopy Decls T SpecAnalyzer \<and>
   length (filter (\<lambda>N. diag_level N = Warning)
             (check Decls SpecAnalyzer getAsString (Some VT) (Some T))) =
     (if willDegradeToCopy Decls T SpecAnalyzer then 1 else 0) \<and>
   diag_args (primaryWarning getAsString VT T) = [getAsString (tl_getType VT), getAsString T]"
proof -
  have eq: "check Decls SpecAnalyzer getAsString (Some VT) (Some T) =
     (if willDegradeToCopy Decls T SpecAnalyzer
      then primaryWarning getAsString VT T #
           recursivelyCheckMembers Decls SpecAnalyzer getAsString T 1
      else [])"
    by (simp add: check_def primaryWarning_def)
  have "filter (\<lambda>N. diag_level N = Warning)
          (recursivelyCheckMembers Decls SpecAnalyzer getAsString T 1) = []"
    using notes_are_notes [of _ Decls SpecAnalyzer getAsString T 1]
    by (auto simp: filter_empty_conv)
  then have cnt: "length (filter (\<lambda>N. diag_level N = Warning)
             (check Decls SpecAnalyzer getAsString (Some VT) (Some T))) =
     (if willDegradeToCopy Decls T SpecAnalyzer then 1 else 0)"
    by (simp add: eq primaryWarning_def diag_def)
  have args: "diag_args (primaryWarning getAsString VT T) =
               [getAsString (tl_getType VT), getAsString T]"
    by (simp add: primaryWarning_def diag_def)
  from eq cnt args show ?thesis by simp
qed

text \<open>
  The test file's \<open>NothrowMoveConstructibleExample\<close> (no output) and
  \<open>MoveConstructorThrows\<close> (the three diagnostics the test expects).
\<close>

theorem check_reports_iff_degrading_witness:
  "\<not> willDegradeToCopy test_Decls
       (plainType (RecordType 5 ''struct NothrowMoveConstructibleExample'')) test_SpecAnalyzer \<and>
   check test_Decls test_SpecAnalyzer test_getAsString
     (Some (vectorAt (64, 35) ''vector<NothrowMoveConstructibleExample>''))
     (Some (plainType (RecordType 5 ''struct NothrowMoveConstructibleExample''))) = [] \<and>
   willDegradeToCopy test_Decls
     (plainType (RecordType 0 ''struct MoveConstructorThrows'')) test_SpecAnalyzer \<and>
   check test_Decls test_SpecAnalyzer test_getAsString
     (Some (vectorAt (14, 35) ''vector<MoveConstructorThrows>''))
     (Some (plainType (RecordType 0 ''struct MoveConstructorThrows''))) =
     [\<lparr>diag_loc = (14, 35), diag_message = WarningMessage, diag_level = Warning,
       diag_args = [''vector<MoveConstructorThrows>'', ''struct MoveConstructorThrows'']\<rparr>,
      \<lparr>diag_loc = (9, 8), diag_message = DefinedHereMessage, diag_level = Note,
       diag_args = [''struct MoveConstructorThrows'']\<rparr>,
      \<lparr>diag_loc = (11, 5), diag_message = ThrowingCtorMessage, diag_level = Note,
       diag_args = []\<rparr>]"
proof -
  have a: "\<not> willDegradeToCopy test_Decls
       (plainType (RecordType 5 ''struct NothrowMoveConstructibleExample'')) test_SpecAnalyzer"
    by (simp add: query_defs test_defs)
  have b: "willDegradeToCopy test_Decls
     (plainType (RecordType 0 ''struct MoveConstructorThrows'')) test_SpecAnalyzer"
    by (simp add: query_defs test_defs)
  have c: "primaryWarning test_getAsString (vectorAt (14, 35) ''vector<MoveConstructorThrows>'')
             (plainType (RecordType 0 ''struct MoveConstructorThrows'')) #
           recursivelyCheckMembers test_Decls test_SpecAnalyzer test_getAsString
             (plainType (RecordType 0 ''struct MoveConstructorThrows'')) 1 =
     [\<lparr>diag_loc = (14, 35), diag_message = WarningMessage, diag_level = Warning,
       diag_args = [''vector<MoveConstructorThrows>'', ''struct MoveConstructorThrows'']\<rparr>,
      \<lparr>diag_loc = (9, 8), diag_message = DefinedHereMessage, diag_level = Note,
       diag_args = [''struct MoveConstructorThrows'']\<rparr>,
      \<lparr>diag_loc = (11, 5), diag_message = ThrowingCtorMessage, diag_level = Note,
       diag_args = []\<rparr>]"
    by (simp add: recursivelyCheckMembers.simps query_defs test_defs note_defs diag_def)
  show ?thesis
    using check_reports_iff_degrading [of test_Decls test_SpecAnalyzer test_getAsString
        "vectorAt (64, 35) ''vector<NothrowMoveConstructibleExample>''"
        "plainType (RecordType 5 ''struct NothrowMoveConstructibleExample'')"]
      check_reports_iff_degrading [of test_Decls test_SpecAnalyzer test_getAsString
        "vectorAt (14, 35) ''vector<MoveConstructorThrows>''"
        "plainType (RecordType 0 ''struct MoveConstructorThrows'')"]
      a b c
    by simp
qed

section \<open>Order of the checks, and the depth bound\<close>

text \<open>
  Claim C8. On a type with a defined record, \<open>recursivelyCheckMembers\<close> first emits the
  locator step \<open>defined here\<close> of that record and then at most one cause, chosen in
  this order: the throwing user-provided move constructor; else the first degrading
  member in declaration order; else the first degrading non-virtual base in declaration
  order; the first that matches wins and the later checks are not consulted. Every chain
  alternates locator steps and cause steps, starting with a locator.
\<close>

theorem locator_first_then_prioritised_cause:
  assumes "getAsCXXRecordDecl Decls T = Some Record" and "rec_hasDefinition Record"
  shows "recursivelyCheckMembers Decls SpecAnalyzer getAsString T RecursionDepth =
           definedHere getAsString Record #
           (case getThrowingUserDefinedMoveConstructor Record SpecAnalyzer of
              Some MoveCTOR \<Rightarrow> [throwingCtorHere MoveCTOR]
            | None \<Rightarrow>
                (case getFirstThrowingDataMember Decls Record SpecAnalyzer of
                   Some ThrowingDataMember \<Rightarrow>
                     becauseMember getAsString ThrowingDataMember #
                     (if RecursionDepth \<ge> MaxRecursionDepth then []
                      else recursivelyCheckMembers Decls SpecAnalyzer getAsString
                             (field_getType ThrowingDataMember) (RecursionDepth + 1))
                 | None \<Rightarrow>
                     (case getFirstThrowingBaseClass Decls Record SpecAnalyzer of
                        Some ThrowingBaseClass \<Rightarrow>
                          becauseBase getAsString ThrowingBaseClass #
                          (if RecursionDepth \<ge> MaxRecursionDepth then []
                           else recursivelyCheckMembers Decls SpecAnalyzer getAsString
                                  (base_getType ThrowingBaseClass) (RecursionDepth + 1))
                      | None \<Rightarrow> []))) \<and>
         getThrowingUserDefinedMoveConstructor Record SpecAnalyzer =
           (case find (\<lambda>C. ctor_isMoveConstructor C \<and> ctor_isUserProvided C)
                   (rec_ctors Record) of
              None \<Rightarrow> None
            | Some C \<Rightarrow> if SpecAnalyzer C = Throwing then Some C else None) \<and>
         getFirstThrowingDataMember Decls Record SpecAnalyzer =
           find (\<lambda>F. field_isCXXClassMember F \<and>
                      willDegradeToCopy Decls (field_getType F) SpecAnalyzer)
             (rec_fields Record) \<and>
         getFirstThrowingBaseClass Decls Record SpecAnalyzer =
           find (\<lambda>B. \<not> base_isVirtual B \<and>
                      willDegradeToCopy Decls (base_getType B) SpecAnalyzer)
             (rec_bases Record) \<and>
         isLocatorStep
           (hd (recursivelyCheckMembers Decls SpecAnalyzer getAsString T RecursionDepth)) \<and>
         alternates (recursivelyCheckMembers Decls SpecAnalyzer getAsString T RecursionDepth)"
proof -
  note unfold = recursivelyCheckMembers_defined [OF assms, of SpecAnalyzer getAsString RecursionDepth]
  have ctors: "getThrowingUserDefinedMoveConstructor Record SpecAnalyzer =
           (case find (\<lambda>C. ctor_isMoveConstructor C \<and> ctor_isUserProvided C)
                   (rec_ctors Record) of
              None \<Rightarrow> None
            | Some C \<Rightarrow> if SpecAnalyzer C = Throwing then Some C else None)"
    by (simp add: getThrowingUserDefinedMoveConstructor_def
        getThrowingUserDefinedMoveConstructor_loop_find)
  have members: "getFirstThrowingDataMember Decls Record SpecAnalyzer =
           find (\<lambda>F. field_isCXXClassMember F \<and>
                      willDegradeToCopy Decls (field_getType F) SpecAnalyzer)
             (rec_fields Record)"
    by (simp add: getFirstThrowingDataMember_def getFirstThrowingDataMember_loop_find)
  have bases: "getFirstThrowingBaseClass Decls Record SpecAnalyzer =
           find (\<lambda>B. \<not> base_isVirtual B \<and>
                      willDegradeToCopy Decls (base_getType B) SpecAnalyzer)
             (rec_bases Record)"
    by (simp add: getFirstThrowingBaseClass_def getFirstThrowingBaseClass_loop_find)
  have first: "isLocatorStep
           (hd (recursivelyCheckMembers Decls SpecAnalyzer getAsString T RecursionDepth))"
    by (subst unfold) (simp add: step_kinds)
  have alt: "alternates (recursivelyCheckMembers Decls SpecAnalyzer getAsString T RecursionDepth)"
    by (rule notes_alternate)
  show ?thesis
    by (intro conjI unfold ctors members bases first alt)
qed

text \<open>
  The test file's \<open>ContainsThrowingMoveConstructor\<close>: its first member is an enumeration
  and is passed over, the second one is the cause.
\<close>

theorem locator_first_then_prioritised_cause_witness:
  "getAsCXXRecordDecl test_Decls (plainType (RecordType 2 ''class ContainsThrowingMoveConstructor'')) =
     Some ContainsThrowingMoveConstructor \<and>
   rec_hasDefinition ContainsThrowingMoveConstructor \<and>
   rec_fields ContainsThrowingMoveConstructor = [ThisMemberIsFine, Foo] \<and>
   getFirstThrowingDataMember test_Decls ContainsThrowingMoveConstructor test_SpecAnalyzer =
     Some Foo \<and>
   recursivelyCheckMembers test_Decls test_SpecAnalyzer test_getAsString
     (plainType (RecordType 2 ''class ContainsThrowingMoveConstructor'')) 1 =
     definedHere test_getAsString ContainsThrowingMoveConstructor #
     becauseMember test_getAsString Foo #
     recursivelyCheckMembers test_Decls test_SpecAnalyzer test_getAsString
       (field_getType Foo) (1 + 1) \<and>
   alternates (recursivelyCheckMembers test_Decls test_SpecAnalyzer test_getAsString
     (plainType (RecordType 2 ''class ContainsThrowingMoveConstructor'')) 1)"
proof -
  have a: "getAsCXXRecordDecl test_Decls
             (plainType (RecordType 2 ''class ContainsThrowingMoveConstructor'')) =
           Some ContainsThrowingMoveConstructor"
    by (simp add: getAsCXXRecordDecl_def plainType_def test_Decls_def)
  have b: "rec_hasDefinition ContainsThrowingMoveConstructor"
    by (simp add: ContainsThrowingMoveConstructor_def)
  have c: "getThrowingUserDefinedMoveConstructor ContainsThrowingMoveConstructor
             test_SpecAnalyzer = None"
    by (simp add: getThrowingUserDefinedMoveConstructor_def ContainsThrowingMoveConstructor_def)
  have d: "getFirstThrowingDataMember test_Decls ContainsThrowingMoveConstructor
             test_SpecAnalyzer = Some Foo"
    by (simp add: query_defs test_defs)
  have e: "rec_fields ContainsThrowingMoveConstructor = [ThisMemberIsFine, Foo]"
    by (simp add: ContainsThrowingMoveConstructor_def)
  have f: "(MaxRecursionDepth \<le> 1) = False"
    by (simp add: MaxRecursionDepth_def)
  note w = locator_first_then_prioritised_cause [OF a b, of test_SpecAnalyzer test_getAsString 1]
  have eq: "recursivelyCheckMembers test_Decls test_SpecAnalyzer test_getAsString
     (plainType (RecordType 2 ''class ContainsThrowingMoveConstructor'')) 1 =
     definedHere test_getAsString ContainsThrowingMoveConstructor #
     becauseMember test_getAsString Foo #
     recursivelyCheckMembers test_Decls test_SpecAnalyzer test_getAsString
       (field_getType Foo) (1 + 1)"
    using w [THEN conjunct1] by (simp only: c d f option.case if_False)
  have alt: "alternates (recursivelyCheckMembers test_Decls test_SpecAnalyzer test_getAsString
     (plainType (RecordType 2 ''class ContainsThrowingMoveConstructor'')) 1)"
    using w by blast
  show ?thesis
    by (intro conjI a b e d eq alt)
qed

text \<open>
  Claim C9, as the code has it. Every call returns: \<open>recursivelyCheckMembers\<close> is total
  on every declaration table, cyclic ones included, because it recurses only below
  \<open>MaxRecursionDepth\<close> and with the depth incremented. It emits at most two notes for
  each depth from the starting one up to \<open>MaxRecursionDepth\<close>, and \<open>check\<close> at most seven
  diagnostics. There is no failing path. Absent information gives a negative or empty
  answer in each helper: an unbound node, a type without record, a record without
  definition, and a record without constructors, members or bases. It does not in the
  predicate and the entry point, which negate the helpers: a type without record or
  without definition that is neither builtin nor an enumeration, and a defined record
  that lists no move constructor and is not trivially copyable, satisfy
  \<open>willDegradeToCopy\<close>, and \<open>check\<close> reports them.
\<close>

theorem analysis_is_depth_bounded:
  "length (recursivelyCheckMembers Decls SpecAnalyzer getAsString T RecursionDepth)
     \<le> 2 * Suc (MaxRecursionDepth - RecursionDepth) \<and>
   length (check Decls SpecAnalyzer getAsString VectorType ValueType)
     \<le> 1 + 2 * MaxRecursionDepth \<and>
   check Decls SpecAnalyzer getAsString None ValueType = [] \<and>
   check Decls SpecAnalyzer getAsString VectorType None = [] \<and>
   (getAsCXXRecordDecl Decls T = None \<or>
    (getAsCXXRecordDecl Decls T = Some Record \<and> \<not> rec_hasDefinition Record) \<longrightarrow>
      \<not> hasNothrowMoveConstructor Decls T SpecAnalyzer \<and>
      isTriviallyCopyable Decls T = (isBuiltinType T \<or> isEnumeralType T) \<and>
      recursivelyCheckMembers Decls SpecAnalyzer getAsString T RecursionDepth = [] \<and>
      willDegradeToCopy Decls T SpecAnalyzer = (\<not> isBuiltinType T \<and> \<not> isEnumeralType T) \<and>
      check Decls SpecAnalyzer getAsString (Some VT) (Some T) =
        (if isBuiltinType T \<or> isEnumeralType T then [] else [primaryWarning getAsString VT T])) \<and>
   (getAsCXXRecordDecl Decls T = Some Record \<and> rec_hasDefinition Record \<and>
    find ctor_isMoveConstructor (rec_ctors Record) = None \<longrightarrow>
      \<not> hasNothrowMoveConstructor Decls T SpecAnalyzer \<and>
      getThrowingUserDefinedMoveConstructor Record SpecAnalyzer = None \<and>
      willDegradeToCopy Decls T SpecAnalyzer = (\<not> rec_isTriviallyCopyable Record) \<and>
      (check Decls SpecAnalyzer getAsString (Some VT) (Some T) \<noteq> []) =
        (\<not> rec_isTriviallyCopyable Record)) \<and>
   (rec_ctors Record = [] \<longrightarrow>
      getThrowingUserDefinedMoveConstructor Record SpecAnalyzer = None) \<and>
   (rec_fields Record = [] \<longrightarrow> getFirstThrowingDataMember Decls Record SpecAnalyzer = None) \<and>
   (rec_bases Record = [] \<longrightarrow> getFirstThrowingBaseClass Decls Record SpecAnalyzer = None)"
proof -
  have chain: "length (recursivelyCheckMembers Decls SpecAnalyzer getAsString T RecursionDepth)
     \<le> 2 * Suc (MaxRecursionDepth - RecursionDepth)"
    by (rule chain_length_bound)
  have "length (recursivelyCheckMembers Decls SpecAnalyzer getAsString ValT 1)
          \<le> 2 * MaxRecursionDepth" for ValT
    using chain_length_bound [of Decls SpecAnalyzer getAsString ValT 1]
    by (simp add: MaxRecursionDepth_def)
  then have chk: "length (check Decls SpecAnalyzer getAsString VectorType ValueType)
     \<le> 1 + 2 * MaxRecursionDepth"
    by (simp add: check_def split: option.splits)
  have none: "check Decls SpecAnalyzer getAsString None ValueType = []"
    "check Decls SpecAnalyzer getAsString VectorType None = []"
    by (simp_all add: check_def split: option.splits)
  have absent: "getAsCXXRecordDecl Decls T = None \<or>
    (getAsCXXRecordDecl Decls T = Some Record \<and> \<not> rec_hasDefinition Record) \<longrightarrow>
      \<not> hasNothrowMoveConstructor Decls T SpecAnalyzer \<and>
      isTriviallyCopyable Decls T = (isBuiltinType T \<or> isEnumeralType T) \<and>
      recursivelyCheckMembers Decls SpecAnalyzer getAsString T RecursionDepth = [] \<and>
      willDegradeToCopy Decls T SpecAnalyzer = (\<not> isBuiltinType T \<and> \<not> isEnumeralType T) \<and>
      check Decls SpecAnalyzer getAsString (Some VT) (Some T) =
        (if isBuiltinType T \<or> isEnumeralType T then [] else [primaryWarning getAsString VT T])"
  proof
    assume hyp: "getAsCXXRecordDecl Decls T = None \<or>
      (getAsCXXRecordDecl Decls T = Some Record \<and> \<not> rec_hasDefinition Record)"
    then have nothrow: "\<not> hasNothrowMoveConstructor Decls T SpecAnalyzer"
      by (auto simp: hasNothrowMoveConstructor_def)
    from hyp have triv: "isTriviallyCopyable Decls T = (isBuiltinType T \<or> isEnumeralType T)"
      by (auto simp: isTriviallyCopyable_def)
    from hyp have empty: "recursivelyCheckMembers Decls SpecAnalyzer getAsString T d = []" for d
      by (auto simp: recursivelyCheckMembers_no_record recursivelyCheckMembers_no_definition)
    from nothrow triv have deg: "willDegradeToCopy Decls T SpecAnalyzer =
        (\<not> isBuiltinType T \<and> \<not> isEnumeralType T)"
      by (simp add: willDegradeToCopy_def)
    have "check Decls SpecAnalyzer getAsString (Some VT) (Some T) =
        (if isBuiltinType T \<or> isEnumeralType T then [] else [primaryWarning getAsString VT T])"
      by (simp add: check_def deg empty primaryWarning_def)
    with nothrow triv empty deg show "\<not> hasNothrowMoveConstructor Decls T SpecAnalyzer \<and>
      isTriviallyCopyable Decls T = (isBuiltinType T \<or> isEnumeralType T) \<and>
      recursivelyCheckMembers Decls SpecAnalyzer getAsString T RecursionDepth = [] \<and>
      willDegradeToCopy Decls T SpecAnalyzer = (\<not> isBuiltinType T \<and> \<not> isEnumeralType T) \<and>
      check Decls SpecAnalyzer getAsString (Some VT) (Some T) =
        (if isBuiltinType T \<or> isEnumeralType T then [] else [primaryWarning getAsString VT T])"
      by simp
  qed
  have noMove: "getAsCXXRecordDecl Decls T = Some Record \<and> rec_hasDefinition Record \<and>
    find ctor_isMoveConstructor (rec_ctors Record) = None \<longrightarrow>
      \<not> hasNothrowMoveConstructor Decls T SpecAnalyzer \<and>
      getThrowingUserDefinedMoveConstructor Record SpecAnalyzer = None \<and>
      willDegradeToCopy Decls T SpecAnalyzer = (\<not> rec_isTriviallyCopyable Record) \<and>
      (check Decls SpecAnalyzer getAsString (Some VT) (Some T) \<noteq> []) =
        (\<not> rec_isTriviallyCopyable Record)"
  proof
    assume hyp: "getAsCXXRecordDecl Decls T = Some Record \<and> rec_hasDefinition Record \<and>
      find ctor_isMoveConstructor (rec_ctors Record) = None"
    then have rec: "getAsCXXRecordDecl Decls T = Some Record" and def: "rec_hasDefinition Record"
      and nm: "find ctor_isMoveConstructor (rec_ctors Record) = None"
      by simp_all
    from rec have cls: "\<not> isBuiltinType T" "\<not> isEnumeralType T"
      using record_type_class by blast+
    from rec def nm have nothrow: "\<not> hasNothrowMoveConstructor Decls T SpecAnalyzer"
      by (simp add: hasNothrowMoveConstructor_def hasNothrowMoveConstructor_loop_find)
    have weaker: "find (\<lambda>C. ctor_isMoveConstructor C \<and> ctor_isUserProvided C) Cs = None"
      if "find ctor_isMoveConstructor Cs = None" for Cs
      using that by (induction Cs) (auto split: if_splits)
    from weaker [OF nm]
    have noCtor: "getThrowingUserDefinedMoveConstructor Record SpecAnalyzer = None"
      by (simp add: getThrowingUserDefinedMoveConstructor_def
          getThrowingUserDefinedMoveConstructor_loop_find)
    from rec def cls nothrow
    have deg: "willDegradeToCopy Decls T SpecAnalyzer = (\<not> rec_isTriviallyCopyable Record)"
      by (simp add: willDegradeToCopy_def isTriviallyCopyable_def)
    have "(check Decls SpecAnalyzer getAsString (Some VT) (Some T) \<noteq> []) =
        (\<not> rec_isTriviallyCopyable Record)"
      by (simp add: check_def deg)
    with nothrow noCtor deg show "\<not> hasNothrowMoveConstructor Decls T SpecAnalyzer \<and>
      getThrowingUserDefinedMoveConstructor Record SpecAnalyzer = None \<and>
      willDegradeToCopy Decls T SpecAnalyzer = (\<not> rec_isTriviallyCopyable Record) \<and>
      (check Decls SpecAnalyzer getAsString (Some VT) (Some T) \<noteq> []) =
        (\<not> rec_isTriviallyCopyable Record)"
      by simp
  qed
  have empties: "rec_ctors Record = [] \<longrightarrow>
      getThrowingUserDefinedMoveConstructor Record SpecAnalyzer = None"
    "rec_fields Record = [] \<longrightarrow> getFirstThrowingDataMember Decls Record SpecAnalyzer = None"
    "rec_bases Record = [] \<longrightarrow> getFirstThrowingBaseClass Decls Record SpecAnalyzer = None"
    by (simp_all add: getThrowingUserDefinedMoveConstructor_def getFirstThrowingDataMember_def
        getFirstThrowingBaseClass_def)
  show ?thesis
    by (intro conjI chain chk none absent noMove empties)
qed

text \<open>
  A record that contains itself: the walk stops after three levels, with six notes. A
  pointer, \<open>Incomplete\<close> and this record are each reported as degrading.
\<close>

theorem analysis_is_depth_bounded_witness:
  "length (recursivelyCheckMembers more_Decls more_SpecAnalyzer test_getAsString
     (plainType (RecordType 11 ''struct SelfContaining'')) 1) = 6 \<and>
   length (check more_Decls more_SpecAnalyzer test_getAsString
     (Some (vectorAt (88, 35) ''vector<SelfContaining>''))
     (Some (plainType (RecordType 11 ''struct SelfContaining'')))) = 7 \<and>
   getAsCXXRecordDecl more_Decls (plainType (OtherType ''int *'')) = None \<and>
   \<not> hasNothrowMoveConstructor more_Decls (plainType (OtherType ''int *'')) more_SpecAnalyzer \<and>
   \<not> isTriviallyCopyable more_Decls (plainType (OtherType ''int *'')) \<and>
   recursivelyCheckMembers more_Decls more_SpecAnalyzer test_getAsString
     (plainType (OtherType ''int *'')) 1 = [] \<and>
   willDegradeToCopy more_Decls (plainType (OtherType ''int *'')) more_SpecAnalyzer \<and>
   getAsCXXRecordDecl more_Decls (plainType (RecordType 7 ''struct Incomplete'')) =
     Some Incomplete \<and>
   \<not> rec_hasDefinition Incomplete \<and>
   \<not> hasNothrowMoveConstructor more_Decls (plainType (RecordType 7 ''struct Incomplete''))
       more_SpecAnalyzer \<and>
   willDegradeToCopy more_Decls (plainType (RecordType 7 ''struct Incomplete''))
     more_SpecAnalyzer \<and>
   getAsCXXRecordDecl more_Decls (plainType (RecordType 11 ''struct SelfContaining'')) =
     Some SelfContaining \<and>
   rec_hasDefinition SelfContaining \<and>
   find ctor_isMoveConstructor (rec_ctors SelfContaining) = None \<and>
   \<not> hasNothrowMoveConstructor more_Decls (plainType (RecordType 11 ''struct SelfContaining''))
       more_SpecAnalyzer \<and>
   willDegradeToCopy more_Decls (plainType (RecordType 11 ''struct SelfContaining''))
     more_SpecAnalyzer \<and>
   rec_ctors SelfContaining = [] \<and> rec_bases SelfContaining = [] \<and>
   getThrowingUserDefinedMoveConstructor SelfContaining more_SpecAnalyzer = None \<and>
   getFirstThrowingBaseClass more_Decls SelfContaining more_SpecAnalyzer = None \<and>
   rec_fields MoveConstructorThrows = [] \<and>
   getFirstThrowingDataMember more_Decls MoveConstructorThrows more_SpecAnalyzer = None"
proof -
  have lower: "6 \<le> length (recursivelyCheckMembers more_Decls more_SpecAnalyzer test_getAsString
     (plainType (RecordType 11 ''struct SelfContaining'')) 1)"
    by (simp add: recursivelyCheckMembers.simps query_defs test_defs more_defs)
  have a: "getAsCXXRecordDecl more_Decls (plainType (OtherType ''int *'')) = None"
    by (simp add: getAsCXXRecordDecl_def plainType_def)
  have a': "\<not> isBuiltinType (plainType (OtherType ''int *''))"
    "\<not> isEnumeralType (plainType (OtherType ''int *''))"
    by (simp_all add: isBuiltinType_def isEnumeralType_def plainType_def)
  have i: "getAsCXXRecordDecl more_Decls (plainType (RecordType 7 ''struct Incomplete'')) =
     Some Incomplete"
    by (simp add: getAsCXXRecordDecl_def plainType_def more_Decls_def)
  have i': "\<not> rec_hasDefinition Incomplete"
    "\<not> isBuiltinType (plainType (RecordType 7 ''struct Incomplete''))"
    "\<not> isEnumeralType (plainType (RecordType 7 ''struct Incomplete''))"
    by (simp_all add: Incomplete_def ForwardDeclared_def isBuiltinType_def isEnumeralType_def
        plainType_def)
  have s: "getAsCXXRecordDecl more_Decls (plainType (RecordType 11 ''struct SelfContaining'')) =
     Some SelfContaining"
    by (simp add: getAsCXXRecordDecl_def plainType_def more_Decls_def)
  have b: "rec_ctors SelfContaining = []" "rec_bases SelfContaining = []"
    "rec_hasDefinition SelfContaining" "\<not> rec_isTriviallyCopyable SelfContaining"
    "find ctor_isMoveConstructor (rec_ctors SelfContaining) = None"
    by (simp_all add: SelfContaining_def)
  have m: "2 * Suc (MaxRecursionDepth - 1) = 6"
    by (simp add: MaxRecursionDepth_def)
  have n: "rec_fields MoveConstructorThrows = []"
    by (simp add: MoveConstructorThrows_def)
  note self = analysis_is_depth_bounded [of more_Decls more_SpecAnalyzer test_getAsString
        "plainType (RecordType 11 ''struct SelfContaining'')" 1 None None SelfContaining
        "vectorAt (88, 35) ''vector<SelfContaining>''"]
  note ptr = analysis_is_depth_bounded [of more_Decls more_SpecAnalyzer test_getAsString
        "plainType (OtherType ''int *'')" 1 None None SelfContaining
        "vectorAt (88, 35) ''vector<SelfContaining>''"]
  note inc = analysis_is_depth_bounded [of more_Decls more_SpecAnalyzer test_getAsString
        "plainType (RecordType 7 ''struct Incomplete'')" 1 None None Incomplete
        "vectorAt (88, 35) ''vector<SelfContaining>''"]
  note mct = analysis_is_depth_bounded [of more_Decls more_SpecAnalyzer test_getAsString
        "plainType (RecordType 11 ''struct SelfContaining'')" 1 None None MoveConstructorThrows
        "vectorAt (88, 35) ''vector<SelfContaining>''"]
  from self s b have deg: "willDegradeToCopy more_Decls
      (plainType (RecordType 11 ''struct SelfContaining'')) more_SpecAnalyzer"
    and nt: "\<not> hasNothrowMoveConstructor more_Decls
      (plainType (RecordType 11 ''struct SelfContaining'')) more_SpecAnalyzer"
    and sc: "getThrowingUserDefinedMoveConstructor SelfContaining more_SpecAnalyzer = None"
      "getFirstThrowingBaseClass more_Decls SelfContaining more_SpecAnalyzer = None"
    by simp_all
  from self lower m have len: "length (recursivelyCheckMembers more_Decls more_SpecAnalyzer
     test_getAsString (plainType (RecordType 11 ''struct SelfContaining'')) 1) = 6"
    by simp
  from deg len have len7: "length (check more_Decls more_SpecAnalyzer test_getAsString
     (Some (vectorAt (88, 35) ''vector<SelfContaining>''))
     (Some (plainType (RecordType 11 ''struct SelfContaining'')))) = 7"
    by (simp add: check_def)
  from ptr a a' have p: "\<not> hasNothrowMoveConstructor more_Decls (plainType (OtherType ''int *''))
       more_SpecAnalyzer"
    "\<not> isTriviallyCopyable more_Decls (plainType (OtherType ''int *''))"
    "recursivelyCheckMembers more_Decls more_SpecAnalyzer test_getAsString
       (plainType (OtherType ''int *'')) 1 = []"
    "willDegradeToCopy more_Decls (plainType (OtherType ''int *'')) more_SpecAnalyzer"
    by simp_all
  from inc i i' have q: "\<not> hasNothrowMoveConstructor more_Decls
       (plainType (RecordType 7 ''struct Incomplete'')) more_SpecAnalyzer"
    "willDegradeToCopy more_Decls (plainType (RecordType 7 ''struct Incomplete''))
       more_SpecAnalyzer"
    by simp_all
  from mct n have r: "getFirstThrowingDataMember more_Decls MoveConstructorThrows
       more_SpecAnalyzer = None"
    by simp
  show ?thesis
    by (intro conjI len len7 a p i i'(1) q s b(3) b(5) nt deg b(1) b(2) sc n r)
qed

text \<open>
  The claim as the specification words it (absent information is always a negative or
  empty result) fails at \<open>int *\<close>, a type without record, and at \<open>Inner\<close>, a record
  that lists no constructor: the predicate is true and \<open>check\<close> emits diagnostics.
\<close>

theorem absent_information_counterexample:
  "getAsCXXRecordDecl test_Decls (plainType (OtherType ''int *'')) = None \<and>
   willDegradeToCopy test_Decls (plainType (OtherType ''int *'')) test_SpecAnalyzer \<and>
   check test_Decls test_SpecAnalyzer test_getAsString
     (Some (vectorAt (90, 35) ''vector<int *>'')) (Some (plainType (OtherType ''int *''))) \<noteq> [] \<and>
   getAsCXXRecordDecl test_Decls (plainType (RecordType 3 ''Inner'')) = Some Inner \<and>
   rec_ctors Inner = [] \<and>
   willDegradeToCopy test_Decls (plainType (RecordType 3 ''Inner'')) test_SpecAnalyzer \<and>
   check test_Decls test_SpecAnalyzer test_getAsString
     (Some (vectorAt (91, 35) ''vector<Inner>'')) (Some (plainType (RecordType 3 ''Inner''))) \<noteq> []"
  by (simp add: check_def query_defs test_defs)

end
